theory Spec2Isabelle
  imports Main "HOL-Library.Sublist"
begin

section \<open>Dynamic values, exceptions and the outside world\<close>

text \<open>
  The transformer and the server are TypeScript classes. Values typed \<open>any\<close> (the
  \<open>data\<close> payload of an event, the result of \<open>JSON.parse\<close>, the arguments of a
  function call part) are modelled by one datatype of JavaScript values. An object is an
  association list in property order. Numbers are not inspected by the code, so integers
  stand for them.
\<close>

datatype js =
    JUndefined
  | JNull
  | JBool bool
  | JNum int
  | JStr string
  | JArr "js list"
  | JObj "(string \<times> js) list"

text \<open>
  Exceptions are values. Every built-in error is an instance of \<open>Error\<close> and carries a
  message; the wording of a message is the engine's, only its presence matters here.
\<close>

datatype exn = TypeError string | SyntaxError string | Error string

fun message_of :: "exn \<Rightarrow> string" where
  "message_of (TypeError s) = s"
| "message_of (SyntaxError s) = s"
| "message_of (Error s) = s"

text \<open>\<open>Number.prototype.toString\<close> on an integer: its decimal digits.\<close>

fun nat_toString :: "nat \<Rightarrow> string" where
  "nat_toString n =
     (if n < 10 then [''0123456789'' ! n]
      else nat_toString (n div 10) @ [''0123456789'' ! (n mod 10)])"

declare nat_toString.simps [simp del]

definition toString :: "int \<Rightarrow> string" where
  "toString i = (if i < 0 then CHR ''-'' # nat_toString (nat (- i)) else nat_toString (nat i))"

text \<open>
  \<open>Date.now()\<close> and \<open>Math.random()\<close> are answered by the environment. The environment
  gives the answer of the \<open>k\<close>-th call; a counter of the calls made so far is threaded
  through every function that asks. \<open>Math_random k\<close> is the text
  \<open>Math.random().toString(36).substr(2, 9)\<close> of that call.
\<close>

record env =
  Date_now :: "nat \<Rightarrow> int"
  Math_random :: "nat \<Rightarrow> string"

definition generateEventId :: "env \<Rightarrow> nat \<Rightarrow> string \<times> nat" where
  "generateEventId orc n =
     (''event_'' @ toString (Date_now orc n) @ ''_'' @ Math_random orc (Suc n), n + 2)"

section \<open>Content envelopes and stream events\<close>

datatype Part =
    Text string "bool option"
  | FunctionCall js "(string \<times> js) list" "string option"
  | FunctionResponse js "(string \<times> js) list" "string option"

record Content =
  role :: string
  parts :: "Part list option"

record StreamEvent =
  event_id :: string
  timestamp :: int
  task_id :: "string option"
  content :: "Content option"
  etype :: "string option"
  data :: "js option"

text \<open>
  A \<open>ClineMessage\<close> as the transformer reads it. A field that is absent at run time is
  \<open>None\<close>; \<open>ts\<close> is declared mandatory, a message without it is malformed.
\<close>

record ClineMessage =
  ts :: "int option"
  mtype :: string
  ask :: "string option"
  say :: "string option"
  mtext :: "string option"
  images :: "string list option"
  partial :: "bool option"
  reasoning :: "string option"

text \<open>What \<open>transformSayMessage\<close> and \<open>transformAskMessage\<close> return: \<open>{ content?, data? }\<close>.\<close>

record GenAI =
  out_content :: "Content list option"
  out_data :: "js option"

definition nothing :: GenAI where
  "nothing = \<lparr>out_content = None, out_data = None\<rparr>"

text \<open>JavaScript idioms: truthiness of an optional string, \<open>a || b\<close>, template rendering.\<close>

fun truthy :: "string option \<Rightarrow> bool" where
  "truthy None = False"
| "truthy (Some s) = (s \<noteq> [])"

fun or_else :: "string option \<Rightarrow> string \<Rightarrow> string" where
  "or_else None d = d"
| "or_else (Some s) d = (if s = [] then d else s)"

fun template :: "string option \<Rightarrow> string" where
  "template None = ''undefined''"
| "template (Some s) = s"

definition bracketed :: "string option \<Rightarrow> string" where
  "bracketed c = ''['' @ template c @ '']''"

fun js_of :: "string option \<Rightarrow> js" where
  "js_of None = JUndefined"
| "js_of (Some s) = JStr s"

text \<open>\<open>...(message.images && message.images.length > 0 && { images: message.images })\<close>\<close>

definition images_prop :: "string \<Rightarrow> ClineMessage \<Rightarrow> (string \<times> js) list" where
  "images_prop k m =
     (case images m of
        Some (x # xs) \<Rightarrow> [(k, JArr (map JStr (x # xs)))]
      | _ \<Rightarrow> [])"

text \<open>\<open>message.ts.toString()\<close>: a missing \<open>ts\<close> raises.\<close>

definition ts_toString :: "ClineMessage \<Rightarrow> exn + string" where
  "ts_toString m =
     (case ts m of
        None \<Rightarrow> Inl (TypeError ''Cannot read properties of undefined (reading toString)'')
      | Some t \<Rightarrow> Inr (toString t))"

definition one_part :: "string \<Rightarrow> Part \<Rightarrow> js \<Rightarrow> GenAI" where
  "one_part r p d = \<lparr>out_content = Some [\<lparr>role = r, parts = Some [p]\<rparr>], out_data = Some d\<rparr>"

definition say_data :: "ClineMessage \<Rightarrow> js" where
  "say_data m = JObj [(''say'', js_of (say m))]"

definition ask_data :: "ClineMessage \<Rightarrow> js" where
  "ask_data m = JObj [(''ask'', js_of (ask m))]"

text \<open>\<open>if (message.text) { return f(message.text) } return {}\<close>\<close>

definition when_text :: "ClineMessage \<Rightarrow> (string \<Rightarrow> GenAI) \<Rightarrow> GenAI" where
  "when_text m f = (case mtext m of Some (c # cs) \<Rightarrow> f (c # cs) | _ \<Rightarrow> nothing)"

section \<open>The event transformer that returns a sequence of events\<close>

text \<open>
  The informational categories that \<open>transformSayMessage\<close> drops, and all the
  categories its \<open>switch\<close> names.
\<close>

definition say_dropped :: "string list" where
  "say_dropped =
     [''api_req_started'', ''api_req_finished'', ''api_req_retried'',
      ''api_req_retry_delayed'', ''api_req_deleted'', ''shell_integration_warning'',
      ''checkpoint_saved'', ''rooignore_error'', ''diff_error'']"

definition say_table :: "string list" where
  "say_table = say_dropped @
     [''reasoning'', ''text'', ''command_output'', ''browser_action'',
      ''browser_action_result'', ''mcp_server_request_started'', ''mcp_server_response'',
      ''error'', ''completion_result'', ''user_feedback'', ''user_feedback_diff'',
      ''codebase_search_result'', ''subtask_result'']"

definition transformSayMessage :: "ClineMessage \<Rightarrow> exn + GenAI" where
  "transformSayMessage m =
     (let s = say m; d = say_data m in
      if s \<in> Some ` set say_dropped then Inr nothing
      else if s = Some ''reasoning'' then
        Inr (when_text m (\<lambda>t. one_part ''model'' (Text t (Some True)) d))
      else if s = Some ''text'' then
        Inr (when_text m (\<lambda>t. one_part ''model'' (Text t None) d))
      else if s = Some ''command_output'' then
        (case ts_toString m of
           Inl e \<Rightarrow> Inl e
         | Inr i \<Rightarrow> Inr (one_part ''user''
             (FunctionResponse (JStr ''execute_command'') [(''output'', js_of (mtext m))] (Some i)) d))
      else if s = Some ''browser_action'' then
        Inr (one_part ''model''
          (FunctionCall (JStr ''browser_action'')
             ((''action'', JStr (or_else (mtext m) ''Browser action initiated''))
                # images_prop ''images'' m) None) d)
      else if s = Some ''browser_action_result'' then
        Inr (one_part ''user''
          (FunctionResponse (JStr ''browser_action'')
             ((''result'', JStr (or_else (mtext m) [])) # images_prop ''screenshots'' m) None) d)
      else if s = Some ''mcp_server_request_started'' then
        (case ts_toString m of
           Inl e \<Rightarrow> Inl e
         | Inr i \<Rightarrow> Inr (one_part ''model''
             (FunctionCall (JStr ''mcp_tool'')
                [(''status'', JStr ''started''),
                 (''details'', JStr (or_else (mtext m) ''MCP server request initiated''))]
                (Some i)) d))
      else if s = Some ''mcp_server_response'' then
        (case ts_toString m of
           Inl e \<Rightarrow> Inl e
         | Inr i \<Rightarrow> Inr (one_part ''user''
             (FunctionResponse (JStr ''mcp_tool'')
                [(''result'', JStr (or_else (mtext m) []))] (Some i)) d))
      else if s = Some ''error'' then
        Inr (one_part ''user'' (Text (''Error: '' @ or_else (mtext m) ''Unknown error'') None) d)
      else if s = Some ''completion_result'' then
        Inr (one_part ''model'' (Text (or_else (mtext m) (bracketed s)) None) d)
      else if s = Some ''user_feedback'' \<or> s = Some ''user_feedback_diff'' then
        Inr (when_text m (\<lambda>t. one_part ''user'' (Text t None) d))
      else if s = Some ''codebase_search_result'' then
        (case ts_toString m of
           Inl e \<Rightarrow> Inl e
         | Inr i \<Rightarrow> Inr (one_part ''user''
             (FunctionResponse (JStr ''search_codebase'')
                [(''result'', JStr (or_else (mtext m) [])),
                 (''reasoning'', if truthy (reasoning m) then js_of (reasoning m) else JNull)]
                (Some i)) d))
      else if s = Some ''subtask_result'' then
        Inr (one_part ''user''
          (FunctionResponse (JStr ''complete_subtask'')
             [(''result'', JStr (or_else (mtext m) []))] None) d)
      else
        Inr (one_part ''model'' (Text (or_else (mtext m) (bracketed s)) None) d))"

text \<open>
  Reading the properties \<open>tool\<close> and \<open>content\<close> of a parsed value: \<open>null\<close> and
  \<open>undefined\<close> raise, an object answers with its own property, and an array, string,
  number or boolean has no property of either name.
\<close>

fun get_prop :: "js \<Rightarrow> string \<Rightarrow> exn + js" where
  "get_prop JUndefined k = Inl (TypeError (''Cannot read properties of undefined (reading '' @ k @ '')''))"
| "get_prop JNull k = Inl (TypeError (''Cannot read properties of null (reading '' @ k @ '')''))"
| "get_prop (JObj kvs) k = Inr (case map_of kvs k of None \<Rightarrow> JUndefined | Some v \<Rightarrow> v)"
| "get_prop v k = Inr JUndefined"

text \<open>
  The rest of a destructuring \<open>const { tool, content, ...otherArgs } = toolData\<close>: the own
  enumerable properties not named before. An array and a string have their indices.
\<close>

definition indexed :: "js list \<Rightarrow> (string \<times> js) list" where
  "indexed vs = zip (map nat_toString [0..<length vs]) vs"

fun rest_props :: "string list \<Rightarrow> js \<Rightarrow> (string \<times> js) list" where
  "rest_props ks (JObj kvs) = filter (\<lambda>(k, v). k \<notin> set ks) kvs"
| "rest_props ks (JArr vs) = indexed vs"
| "rest_props ks (JStr s) = indexed (map (\<lambda>c. JStr [c]) s)"
| "rest_props ks v = []"

text \<open>
  The \<open>try\<close> block of the \<open>tool\<close> case. \<open>JSON.parse\<close> is the platform's: it is a
  parameter, \<open>None\<close> when it raises a \<open>SyntaxError\<close>. The result \<open>None\<close> means that the
  block ended without returning (the text was empty or absent).
\<close>

definition tool_call :: "js \<Rightarrow> (string \<times> js) list \<Rightarrow> string \<Rightarrow> Content" where
  "tool_call toolName args i =
     \<lparr>role = ''model'', parts = Some [FunctionCall toolName args (Some i)]\<rparr>"

definition tool_response :: "js \<Rightarrow> js \<Rightarrow> string \<Rightarrow> Content" where
  "tool_response toolName c i =
     \<lparr>role = ''user'', parts = Some [FunctionResponse toolName [(''content'', c)] (Some i)]\<rparr>"

definition tool_try :: "(string \<Rightarrow> js option) \<Rightarrow> ClineMessage \<Rightarrow> exn + GenAI option" where
  "tool_try parse m =
     (case mtext m of
        Some (c # cs) \<Rightarrow>
          (case parse (c # cs) of
             None \<Rightarrow> Inl (SyntaxError ''Unexpected token in JSON'')
           | Some toolData \<Rightarrow>
               (case get_prop toolData ''tool'' of
                  Inl e \<Rightarrow> Inl e
                | Inr toolName \<Rightarrow>
                    (case get_prop toolData ''content'' of
                       Inl e \<Rightarrow> Inl e
                     | Inr cont \<Rightarrow>
                         if cont \<noteq> JUndefined then
                           (case ts_toString m of
                              Inl e \<Rightarrow> Inl e
                            | Inr i \<Rightarrow>
                                (case ts_toString m of
                                   Inl e \<Rightarrow> Inl e
                                 | Inr j \<Rightarrow> Inr (Some
                                     \<lparr>out_content = Some
                                        [tool_call toolName
                                           (rest_props [''tool'', ''content''] toolData) i,
                                         tool_response toolName cont j],
                                      out_data = Some (ask_data m)\<rparr>)))
                         else
                           (case ts_toString m of
                              Inl e \<Rightarrow> Inl e
                            | Inr i \<Rightarrow> Inr (Some
                                \<lparr>out_content = Some
                                   [tool_call toolName (rest_props [''tool''] toolData) i],
                                 out_data = Some (ask_data m)\<rparr>)))))
      | _ \<Rightarrow> Inr None)"

text \<open>
  The interactive-request categories that map to the message text or, without text, to a
  fixed sentence; each is one \<open>case\<close> of the \<open>switch\<close>, all of one shape.
\<close>

definition ask_fallback :: "(string \<times> string) list" where
  "ask_fallback =
     [(''followup'', ''Follow-up question from agent''),
      (''command'', ''Permission request to execute command''),
      (''resume_task'', ''Resume task request''),
      (''resume_completed_task'', ''Resume completed task request''),
      (''browser_action_launch'', ''Browser action launch request''),
      (''use_mcp_server'', ''MCP server usage request''),
      (''completion_result'', ''Task completion result''),
      (''command_output'', ''Command execution output''),
      (''api_req_failed'', ''API request failed - user intervention needed''),
      (''mistake_limit_reached'', ''Mistake limit reached - user guidance needed''),
      (''auto_approval_max_req_reached'',
         ''Auto-approval limit reached - manual approval required'')]"

definition ask_table :: "string list" where
  "ask_table = ''tool'' # map fst ask_fallback"

definition ask_default :: "ClineMessage \<Rightarrow> GenAI" where
  "ask_default m =
     one_part ''model'' (Text (or_else (mtext m) (bracketed (ask m))) None)
       (JObj [(''ask'', js_of (ask m)), (''message'', js_of (mtext m))])"

definition transformAskMessage :: "(string \<Rightarrow> js option) \<Rightarrow> ClineMessage \<Rightarrow> exn + GenAI" where
  "transformAskMessage parse m =
     (if ask m = Some ''tool'' then
        (case tool_try parse m of
           Inl e \<Rightarrow> Inr
             \<lparr>out_content = Some
                [\<lparr>role = ''model'',
                  parts = Some [Text (or_else (mtext m) (bracketed (ask m))) None]\<rparr>],
              out_data = None\<rparr>
         | Inr (Some r) \<Rightarrow> Inr r
         | Inr None \<Rightarrow>
             Inr (one_part ''model'' (Text (bracketed (ask m)) None) (ask_data m)))
      else
        (case ask m of
           None \<Rightarrow> Inr (ask_default m)
         | Some c \<Rightarrow>
             (case map_of ask_fallback c of
                None \<Rightarrow> Inr (ask_default m)
              | Some fb \<Rightarrow>
                  Inr (one_part ''model'' (Text (or_else (mtext m) fb) None) (ask_data m)))))"

definition messageToGenAIContent :: "(string \<Rightarrow> js option) \<Rightarrow> ClineMessage \<Rightarrow> exn + GenAI" where
  "messageToGenAIContent parse m =
     (if mtype m = ''say'' then transformSayMessage m
      else if mtype m = ''ask'' then transformAskMessage parse m
      else Inr nothing)"

text \<open>
  \<open>content.map(...)\<close>: one event for each envelope, in order, each with a fresh event id
  and the time of its making.
\<close>

fun streamEvents ::
  "env \<Rightarrow> nat \<Rightarrow> string \<Rightarrow> js option \<Rightarrow> Content list \<Rightarrow> StreamEvent list \<times> nat" where
  "streamEvents orc n taskId d [] = ([], n)"
| "streamEvents orc n taskId d (c # cs) =
     (let (i, n1) = generateEventId orc n;
          e = \<lparr>event_id = i, timestamp = Date_now orc n1, task_id = Some taskId,
               content = Some c, etype = Some ''message'', data = d\<rparr>;
          (es, n2) = streamEvents orc (Suc n1) taskId d cs
      in (e # es, n2))"

text \<open>
  The \<open>try\<close> block of \<open>transformMessageEvent\<close>. The message itself may be missing: the
  caller passes \<open>clineMessage.message\<close> unchecked. The result \<open>None\<close> is \<open>null\<close>.
\<close>

definition transformMessageEvent_try ::
  "(string \<Rightarrow> js option) \<Rightarrow> env \<Rightarrow> nat \<Rightarrow> string \<Rightarrow> ClineMessage option
     \<Rightarrow> exn + (StreamEvent list option \<times> nat)" where
  "transformMessageEvent_try parse orc n taskId message =
     (case message of
        None \<Rightarrow> Inl (TypeError ''Cannot read properties of undefined (reading partial)'')
      | Some m \<Rightarrow>
          if partial m = Some True then Inr (None, n)
          else
            (case messageToGenAIContent parse m of
               Inl e \<Rightarrow> Inl e
             | Inr r \<Rightarrow>
                 if (out_content r = None \<or> out_content r = Some []) \<and> out_data r = None
                 then Inr (None, n)
                 else
                   (case out_content r of
                      None \<Rightarrow> Inr (None, n)
                    | Some cs \<Rightarrow>
                        (let (es, n') = streamEvents orc n taskId (out_data r) cs
                         in Inr (Some es, n')))))"

text \<open>The \<open>catch\<close> block: one event of type \<open>error\<close> describing the failure.\<close>

definition error_event :: "env \<Rightarrow> nat \<Rightarrow> string \<Rightarrow> exn \<Rightarrow> StreamEvent \<times> nat" where
  "error_event orc n taskId e =
     (let (i, n1) = generateEventId orc n
      in (\<lparr>event_id = i, timestamp = Date_now orc n1, task_id = Some taskId,
            content = None, etype = Some ''error'',
            data = Some (JObj [(''error'',
              JStr (''Error transforming message: '' @ message_of e))])\<rparr>, Suc n1))"

definition transformMessageEvent ::
  "(string \<Rightarrow> js option) \<Rightarrow> env \<Rightarrow> nat \<Rightarrow> string \<Rightarrow> ClineMessage option
     \<Rightarrow> exn + (StreamEvent list option \<times> nat)" where
  "transformMessageEvent parse orc n taskId message =
     (case transformMessageEvent_try parse orc n taskId message of
        Inr r \<Rightarrow> Inr r
      | Inl e \<Rightarrow> (let (ev, n') = error_event orc n taskId e in Inr (Some [ev], n')))"

section \<open>The event transformer that returns a single event\<close>

text \<open>
  The file \<open>src/services/streaming/EventTransformer.ts\<close> holds a second transformer of the
  same name. Its \<open>transformSayMessage\<close> returns one envelope or \<open>null\<close>, it maps no
  interactive request, and its entry point returns one event or \<open>null\<close>. Its functions
  carry the suffix \<open>_single\<close> here.
\<close>

definition envelope :: "string \<Rightarrow> Part \<Rightarrow> Content option" where
  "envelope r p = Some \<lparr>role = r, parts = Some [p]\<rparr>"

definition transformSayMessage_single :: "ClineMessage \<Rightarrow> exn + Content option" where
  "transformSayMessage_single m =
     (let s = say m in
      if s = Some ''reasoning'' then
        Inr (case mtext m of Some (c # cs) \<Rightarrow> envelope ''model'' (Text (c # cs) (Some True))
             | _ \<Rightarrow> None)
      else if s = Some ''text'' then
        Inr (case mtext m of Some (c # cs) \<Rightarrow> envelope ''model'' (Text (c # cs) None)
             | _ \<Rightarrow> None)
      else if s = Some ''api_req_started'' \<or> s = Some ''api_req_finished'' then Inr None
      else if s = Some ''command_output'' then
        (case ts_toString m of
           Inl e \<Rightarrow> Inl e
         | Inr i \<Rightarrow> Inr (envelope ''user''
             (FunctionResponse (JStr ''execute_command'') [(''output'', js_of (mtext m))] (Some i))))
      else if s = Some ''browser_action'' then
        (case ts_toString m of
           Inl e \<Rightarrow> Inl e
         | Inr i \<Rightarrow> Inr (envelope ''model''
             (FunctionCall (JStr ''browser_action'')
                ((''action'', JStr (or_else (mtext m) ''Browser action initiated''))
                   # images_prop ''images'' m) (Some i))))
      else if s = Some ''browser_action_result'' then
        Inr (envelope ''user''
          (FunctionResponse (JStr ''browser_action'')
             ((''result'', JStr (or_else (mtext m) [])) # images_prop ''screenshots'' m) None))
      else if s = Some ''mcp_server_request_started'' then
        (case ts_toString m of
           Inl e \<Rightarrow> Inl e
         | Inr i \<Rightarrow> Inr (envelope ''model''
             (FunctionCall (JStr ''mcp_tool'')
                [(''status'', JStr ''started''),
                 (''details'', JStr (or_else (mtext m) ''MCP server request initiated''))]
                (Some i))))
      else if s = Some ''mcp_server_response'' then
        (case ts_toString m of
           Inl e \<Rightarrow> Inl e
         | Inr i \<Rightarrow> Inr (envelope ''user''
             (FunctionResponse (JStr ''mcp_tool'')
                [(''result'', JStr (or_else (mtext m) []))] (Some i))))
      else if s = Some ''error'' then
        Inr (envelope ''user'' (Text (''Error: '' @ or_else (mtext m) ''Unknown error'') None))
      else if s = Some ''completion_result'' \<or> s = Some ''user_feedback''
              \<or> s = Some ''user_feedback_diff'' then
        Inr (case mtext m of Some (c # cs) \<Rightarrow> envelope ''user'' (Text (c # cs) None)
             | _ \<Rightarrow> Some \<lparr>role = ''user'', parts = None\<rparr>)
      else if s = Some ''codebase_search_result'' then
        (case ts_toString m of
           Inl e \<Rightarrow> Inl e
         | Inr i \<Rightarrow> Inr (envelope ''user''
             (FunctionResponse (JStr ''search_codebase'')
                [(''result'', JStr (or_else (mtext m) [])),
                 (''reasoning'', if truthy (reasoning m) then js_of (reasoning m) else JNull)]
                (Some i))))
      else if s = Some ''subtask_result'' then
        Inr (envelope ''user''
          (FunctionResponse (JStr ''complete_subtask'')
             [(''result'', JStr (or_else (mtext m) []))] None))
      else
        Inr (envelope ''model'' (Text (or_else (mtext m) (bracketed s)) None)))"

definition messageToGenAIContent_single :: "ClineMessage \<Rightarrow> exn + Content option" where
  "messageToGenAIContent_single m =
     (if mtype m = ''say'' then transformSayMessage_single m
      else if mtype m = ''ask'' then Inr None
      else Inr None)"

definition transformMessageEvent_single_try ::
  "env \<Rightarrow> nat \<Rightarrow> string \<Rightarrow> ClineMessage option \<Rightarrow> exn + (StreamEvent option \<times> nat)" where
  "transformMessageEvent_single_try orc n taskId message =
     (case message of
        None \<Rightarrow> Inl (TypeError ''Cannot read properties of undefined (reading type)'')
      | Some m \<Rightarrow>
          (case messageToGenAIContent_single m of
             Inl e \<Rightarrow> Inl e
           | Inr None \<Rightarrow> Inr (None, n)
           | Inr (Some c) \<Rightarrow>
               if parts c = None \<or> parts c = Some [] then Inr (None, n)
               else
                 (let (i, n1) = generateEventId orc n
                  in Inr (Some \<lparr>event_id = i, timestamp = Date_now orc n1,
                                 task_id = Some taskId, content = Some c,
                                 etype = Some ''message'', data = None\<rparr>, Suc n1))))"

definition transformMessageEvent_single ::
  "env \<Rightarrow> nat \<Rightarrow> string \<Rightarrow> ClineMessage option \<Rightarrow> exn + (StreamEvent option \<times> nat)" where
  "transformMessageEvent_single orc n taskId message =
     (case transformMessageEvent_single_try orc n taskId message of
        Inr r \<Rightarrow> Inr r
      | Inl e \<Rightarrow> (let (ev, n') = error_event orc n taskId e in Inr (Some ev, n')))"

section \<open>The streaming server\<close>

subsection \<open>Configuration\<close>

record PortRange =
  pmin :: nat
  pmax :: nat

record StreamingServerConfig =
  enabled :: bool
  port :: nat
  portRange :: "PortRange option"
  logging :: bool
  loggingLevel :: string
  connectionTimeout :: int
  heartbeatInterval :: int

definition DEFAULT_CONFIG :: StreamingServerConfig where
  "DEFAULT_CONFIG =
     \<lparr>enabled = True, port = 3001, portRange = Some \<lparr>pmin = 3001, pmax = 3100\<rparr>,
      logging = False, loggingLevel = ''info'', connectionTimeout = 60000,
      heartbeatInterval = 30000\<rparr>"

text \<open>
  \<open>Partial<StreamingServerConfig>\<close>: a field is \<open>None\<close> when the object has no such
  key. \<open>portRange\<close> is optional in the configuration itself, so an override may also
  carry the key with no range.
\<close>

record ConfigOverride =
  o_enabled :: "bool option"
  o_port :: "nat option"
  o_portRange :: "PortRange option option"
  o_logging :: "bool option"
  o_loggingLevel :: "string option"
  o_connectionTimeout :: "int option"
  o_heartbeatInterval :: "int option"

fun overridden :: "'a option \<Rightarrow> 'a \<Rightarrow> 'a" where
  "overridden None old = old"
| "overridden (Some new) old = new"

text \<open>The object spread \<open>{ ...base, ...over }\<close>.\<close>

definition spread :: "StreamingServerConfig \<Rightarrow> ConfigOverride \<Rightarrow> StreamingServerConfig" where
  "spread base over =
     \<lparr>enabled = overridden (o_enabled over) (enabled base),
      port = overridden (o_port over) (port base),
      portRange = overridden (o_portRange over) (portRange base),
      logging = overridden (o_logging over) (logging base),
      loggingLevel = overridden (o_loggingLevel over) (loggingLevel base),
      connectionTimeout = overridden (o_connectionTimeout over) (connectionTimeout base),
      heartbeatInterval = overridden (o_heartbeatInterval over) (heartbeatInterval base)\<rparr>"

subsection \<open>Connections, frames and the server object\<close>

datatype ready_state = CONNECTING | OPEN | CLOSING | CLOSED

text \<open>
  A socket of the \<open>ws\<close> library, as far as the server uses it: its ready state, and
  whether a call of \<open>send\<close> on it raises.
\<close>

record WebSocket =
  readyState :: ready_state
  send_throws :: bool

record StreamClientConnection =
  conn_id :: string
  connectedAt :: int
  websocket :: "WebSocket option"

text \<open>What is written to a socket: the serialised event, acknowledgement or error.\<close>

datatype frame =
    EventFrame StreamEvent
  | AckFrame js int
  | ErrorFrame string int

record WebSocketTaskCommand =
  commandName :: js
  cmd_data :: js

text \<open>
  The handler is the host's. Its promise resolves, or rejects with a value that is an
  \<open>Error\<close> with a message (\<open>Some\<close>) or is something else (\<open>None\<close>).
\<close>

datatype handler_result = Resolved | Rejected "string option"

type_synonym TaskCommandHandler = "js \<Rightarrow> js \<Rightarrow> handler_result"

record Timeout =
  period :: int
  active :: bool

datatype emitted_event = Started | Stopped | EventBroadcast StreamEvent

text \<open>
  The fields of the class, and what the object does to the outside: \<open>listening\<close> is the
  port the HTTP server is bound to, \<open>listen_log\<close> the ports \<open>server.listen\<close> was called
  with, \<open>wire\<close> the frames written, each with the id of the connection whose socket took
  it, \<open>emitted\<close> the events emitted to the object's listeners, \<open>clock\<close> the number of
  questions asked of the environment.
\<close>

record StreamingServer =
  config :: StreamingServerConfig
  connections :: "(string \<times> StreamClientConnection) list"
  heartbeatTimer :: "Timeout option"
  taskCommandHandler :: "TaskCommandHandler option"
  listening :: "nat option"
  listen_log :: "nat list"
  wire :: "(string \<times> frame) list"
  emitted :: "emitted_event list"
  clock :: nat

text \<open>A \<open>Map\<close> keeps its keys in insertion order; \<open>set\<close> on a present key keeps its place.\<close>

definition map_set :: "'k \<Rightarrow> 'v \<Rightarrow> ('k \<times> 'v) list \<Rightarrow> ('k \<times> 'v) list" where
  "map_set k v kvs =
     (if k \<in> fst ` set kvs then map (\<lambda>(k', v'). if k' = k then (k, v) else (k', v')) kvs
      else kvs @ [(k, v)])"

definition map_delete :: "'k \<Rightarrow> ('k \<times> 'v) list \<Rightarrow> ('k \<times> 'v) list" where
  "map_delete k kvs = filter (\<lambda>(k', v'). k' \<noteq> k) kvs"

subsection \<open>Sending and broadcasting\<close>

definition sendToWebSocketClient ::
  "WebSocket \<Rightarrow> string \<Rightarrow> frame \<Rightarrow> (string \<times> frame) list \<Rightarrow> exn + (string \<times> frame) list" where
  "sendToWebSocketClient ws cid f w =
     (if readyState ws = OPEN then
        (if send_throws ws then Inl (Error ''send failed'') else Inr (w @ [(cid, f)]))
      else Inr w)"

text \<open>
  The loop of \<open>broadcastEvent\<close> runs over a copy of the entries taken before the first
  write; a write that raises deletes that connection and the loop goes on.
\<close>

fun broadcast_loop ::
  "frame \<Rightarrow> (string \<times> StreamClientConnection) list \<Rightarrow> StreamingServer \<Rightarrow> StreamingServer" where
  "broadcast_loop f [] s = s"
| "broadcast_loop f ((connectionId, connection) # rest) s =
     broadcast_loop f rest
       (case (case websocket connection of
                None \<Rightarrow> Inr (wire s)
              | Some ws \<Rightarrow> sendToWebSocketClient ws connectionId f (wire s)) of
          Inr w \<Rightarrow> s\<lparr>wire := w\<rparr>
        | Inl e \<Rightarrow> s\<lparr>connections := map_delete connectionId (connections s)\<rparr>)"

definition broadcastEvent :: "StreamEvent \<Rightarrow> StreamingServer \<Rightarrow> StreamingServer" where
  "broadcastEvent ev s =
     (let s' = broadcast_loop (EventFrame ev) (connections s) s
      in s'\<lparr>emitted := emitted s' @ [EventBroadcast ev]\<rparr>)"

subsection \<open>Construction, heartbeat, start, stop and reconfiguration\<close>

definition setupHeartbeat :: "StreamingServer \<Rightarrow> StreamingServer" where
  "setupHeartbeat s =
     s\<lparr>heartbeatTimer := Some \<lparr>period = heartbeatInterval (config s), active = True\<rparr>\<rparr>"

text \<open>
  The constructor. \<open>setupWebSocket\<close> only registers the callbacks modelled below
  (\<open>on_connection\<close>, \<open>on_message\<close>, \<open>on_close\<close>), it changes no field.
\<close>

definition new_StreamingServer :: "ConfigOverride \<Rightarrow> StreamingServer" where
  "new_StreamingServer over =
     setupHeartbeat
       \<lparr>config = spread DEFAULT_CONFIG over, connections = [], heartbeatTimer = None,
        taskCommandHandler = None, listening = None, listen_log = [], wire = [],
        emitted = [], clock = 0\<rparr>"

text \<open>The callback given to \<open>setInterval\<close>, and one elapsing of the interval.\<close>

definition heartbeat_callback :: "env \<Rightarrow> StreamingServer \<Rightarrow> StreamingServer" where
  "heartbeat_callback orc s =
     (let (i, n1) = generateEventId orc (clock s);
          heartbeatEvent =
            \<lparr>event_id = i, timestamp = Date_now orc n1, task_id = None, content = None,
             etype = Some ''heartbeat'',
             data = Some (JObj [(''timestamp'', JNum (Date_now orc (Suc n1)))])\<rparr>
      in broadcastEvent heartbeatEvent (s\<lparr>clock := n1 + 2\<rparr>))"

definition interval_elapsed :: "env \<Rightarrow> StreamingServer \<Rightarrow> StreamingServer" where
  "interval_elapsed orc s =
     (case heartbeatTimer s of
        None \<Rightarrow> s
      | Some t \<Rightarrow> if active t then heartbeat_callback orc s else s)"

text \<open>
  What \<open>server.listen(p)\<close> leads to: the \<open>listening\<close> event, an \<open>error\<close> event with
  code \<open>EADDRINUSE\<close>, or an \<open>error\<close> event with another error. Which one is the
  environment's answer for the port.
\<close>

datatype bind_outcome = Listening | AddrInUse | BindFailure string

datatype start_error = NoAvailablePorts nat | BindError string

text \<open>
  The constructor attaches the WebSocket server to the HTTP server
  (\<open>new WebSocketServer({ server: this.server })\<close>). From then on the WebSocket server has
  a listener of its own on the HTTP server's \<open>error\<close> event, which emits the error again
  on the WebSocket server. That listener is older than the \<open>onError\<close> that \<open>start\<close>
  registers, so it runs first. An emitter that has no listener for \<open>error\<close> throws the
  error out of \<open>emit\<close>, and the listeners that follow do not run. The class registers a
  listener for \<open>connection\<close> on \<open>this.wss\<close> and for no other event.
\<close>

definition wss_error_listeners :: nat where
  "wss_error_listeners = 0"

definition emit_error :: "nat \<Rightarrow> string \<Rightarrow> exn option" where
  "emit_error listeners code = (if listeners = 0 then Some (Error code) else None)"

text \<open>
  How one attempt ends: the server listens on a port, \<open>onError\<close> rejects the promise, or
  an exception is thrown out of the \<open>error\<close> event and the promise is left as it is.
\<close>

datatype port_result = Bound nat | Failed start_error | Thrown exn

text \<open>
  \<open>tryPort\<close>: the ports tried, in order, and how the scan ends. The first argument is
  the number of listeners for \<open>error\<close> on the WebSocket server. The branches under
  \<open>None\<close> are the body of \<open>onError\<close>.
\<close>

function tryPort ::
  "nat \<Rightarrow> (nat \<Rightarrow> bind_outcome) \<Rightarrow> PortRange option \<Rightarrow> nat \<Rightarrow> nat list \<times> port_result" where
  "tryPort wl listen pr portToTry =
     (case listen portToTry of
        Listening \<Rightarrow> ([portToTry], Bound portToTry)
      | AddrInUse \<Rightarrow>
          (case emit_error wl ''EADDRINUSE'' of
             Some x \<Rightarrow> ([portToTry], Thrown x)
           | None \<Rightarrow>
               (case pr of
                  None \<Rightarrow> ([portToTry], Failed (NoAvailablePorts portToTry))
                | Some r \<Rightarrow>
                    if portToTry < pmax r then
                      (let (tried, res) = tryPort wl listen pr (portToTry + 1)
                       in (portToTry # tried, res))
                    else ([portToTry], Failed (NoAvailablePorts portToTry))))
      | BindFailure e \<Rightarrow>
          (case emit_error wl e of
             Some x \<Rightarrow> ([portToTry], Thrown x)
           | None \<Rightarrow> ([portToTry], Failed (BindError e))))"
  by pat_completeness auto
termination
  by (relation "measure (\<lambda>(wl, listen, pr, p). case pr of None \<Rightarrow> 0 | Some r \<Rightarrow> pmax r - p)")
     auto

declare tryPort.simps [simp del]

text \<open>
  How the promise of \<open>start\<close> stands when the event loop has nothing more to do for it:
  resolved, rejected, or still pending because an exception was thrown out of an event
  and nobody caught it.
\<close>

datatype start_result = Fulfilled | RejectedWith start_error | Pending exn

definition start ::
  "(nat \<Rightarrow> bind_outcome) \<Rightarrow> StreamingServer \<Rightarrow> start_result \<times> StreamingServer" where
  "start listen s =
     (let (tried, res) =
            tryPort wss_error_listeners listen (portRange (config s)) (port (config s));
          s1 = s\<lparr>listen_log := listen_log s @ tried\<rparr>
      in case res of
           Bound portToTry \<Rightarrow>
             (Fulfilled, s1\<lparr>config := (config s1)\<lparr>port := portToTry\<rparr>,
                            listening := Some portToTry,
                            emitted := emitted s1 @ [Started]\<rparr>)
         | Failed e \<Rightarrow> (RejectedWith e, s1)
         | Thrown x \<Rightarrow> (Pending x, s1))"

text \<open>
  \<open>stop\<close>: the timer is cleared, every socket is closed, the registry is emptied, then
  the listeners are closed; the promise resolves in every case.
\<close>

definition stop :: "StreamingServer \<Rightarrow> StreamingServer" where
  "stop s =
     s\<lparr>heartbeatTimer :=
         (case heartbeatTimer s of None \<Rightarrow> None | Some t \<Rightarrow> Some (t\<lparr>active := False\<rparr>)),
       connections := [],
       listening := None,
       emitted := emitted s @ [Stopped]\<rparr>"

definition updateConfig :: "ConfigOverride \<Rightarrow> StreamingServer \<Rightarrow> StreamingServer" where
  "updateConfig newConfig s = s\<lparr>config := spread (config s) newConfig\<rparr>"

definition setTaskCommandHandler :: "TaskCommandHandler \<Rightarrow> StreamingServer \<Rightarrow> StreamingServer" where
  "setTaskCommandHandler handler s = s\<lparr>taskCommandHandler := Some handler\<rparr>"

subsection \<open>Connections and inbound commands\<close>

definition generateConnectionId :: "env \<Rightarrow> nat \<Rightarrow> string \<times> nat" where
  "generateConnectionId orc n =
     (''conn_'' @ toString (Date_now orc n) @ ''_'' @ Math_random orc (Suc n), n + 2)"

definition on_connection :: "env \<Rightarrow> WebSocket \<Rightarrow> StreamingServer \<Rightarrow> StreamingServer" where
  "on_connection orc ws s =
     (let (connectionId, n1) = generateConnectionId orc (clock s);
          connection = \<lparr>conn_id = connectionId, connectedAt = Date_now orc n1,
                        websocket = Some ws\<rparr>
      in s\<lparr>connections := map_set connectionId connection (connections s),
           clock := Suc n1\<rparr>)"

definition on_close :: "string \<Rightarrow> StreamingServer \<Rightarrow> StreamingServer" where
  "on_close connectionId s = s\<lparr>connections := map_delete connectionId (connections s)\<rparr>"

text \<open>
  A function that may raise after changing the server returns the exception, if any,
  beside the server as it then is.
\<close>

definition send_json ::
  "env \<Rightarrow> string \<Rightarrow> (int \<Rightarrow> frame) \<Rightarrow> StreamingServer \<Rightarrow> exn option \<times> StreamingServer" where
  "send_json orc connectionId mk s =
     (case map_of (connections s) connectionId of
        None \<Rightarrow> (None, s)
      | Some connection \<Rightarrow>
          (case websocket connection of
             None \<Rightarrow> (None, s)
           | Some ws \<Rightarrow>
               (let s1 = s\<lparr>clock := Suc (clock s)\<rparr>
                in case sendToWebSocketClient ws connectionId (mk (Date_now orc (clock s)))
                          (wire s1) of
                     Inl e \<Rightarrow> (Some e, s1)
                   | Inr w \<Rightarrow> (None, s1\<lparr>wire := w\<rparr>))))"

definition sendAckToClient ::
  "env \<Rightarrow> string \<Rightarrow> js \<Rightarrow> StreamingServer \<Rightarrow> exn option \<times> StreamingServer" where
  "sendAckToClient orc connectionId name s = send_json orc connectionId (AckFrame name) s"

definition sendErrorToClient ::
  "env \<Rightarrow> string \<Rightarrow> string \<Rightarrow> StreamingServer \<Rightarrow> exn option \<times> StreamingServer" where
  "sendErrorToClient orc connectionId err s = send_json orc connectionId (ErrorFrame err) s"

text \<open>
  \<open>handleTaskCommand\<close> is asynchronous: an exception that leaves it rejects its promise.
  The handler's promise is taken to settle with the server as it is passed here.
\<close>

definition handleTaskCommand ::
  "env \<Rightarrow> string \<Rightarrow> WebSocketTaskCommand \<Rightarrow> StreamingServer \<Rightarrow> exn option \<times> StreamingServer" where
  "handleTaskCommand orc connectionId message s =
     (case taskCommandHandler s of
        None \<Rightarrow> sendErrorToClient orc connectionId ''Task command handler not available'' s
      | Some handler \<Rightarrow>
          (case handler (commandName message) (cmd_data message) of
             Resolved \<Rightarrow>
               (case sendAckToClient orc connectionId (commandName message) s of
                  (None, s1) \<Rightarrow> (None, s1)
                | (Some e, s1) \<Rightarrow>
                    sendErrorToClient orc connectionId
                      (''Failed to process command: '' @ message_of e) s1)
           | Rejected r \<Rightarrow>
               sendErrorToClient orc connectionId
                 (''Failed to process command: '' @
                    (case r of Some msg \<Rightarrow> msg | None \<Rightarrow> ''Unknown error'')) s))"

text \<open>
  \<open>handleClientMessage\<close> reads \<open>message.type\<close> (which raises on \<open>null\<close>) and hands a
  \<open>taskCommand\<close> to \<open>handleTaskCommand\<close> without awaiting it; the cast to
  \<open>WebSocketTaskCommand\<close> checks nothing.
\<close>

definition as_command :: "js \<Rightarrow> WebSocketTaskCommand" where
  "as_command message =
     \<lparr>commandName = (case get_prop message ''commandName'' of Inr v \<Rightarrow> v | Inl e \<Rightarrow> JUndefined),
      cmd_data = (case get_prop message ''data'' of Inr v \<Rightarrow> v | Inl e \<Rightarrow> JUndefined)\<rparr>"

definition handleClientMessage ::
  "env \<Rightarrow> string \<Rightarrow> js \<Rightarrow> StreamingServer \<Rightarrow> (exn + exn option) \<times> StreamingServer" where
  "handleClientMessage orc connectionId message s =
     (case get_prop message ''type'' of
        Inl e \<Rightarrow> (Inl e, s)
      | Inr t \<Rightarrow>
          if t = JStr ''taskCommand'' then
            (let (rejected, s1) = handleTaskCommand orc connectionId (as_command message) s
             in (Inr rejected, s1))
          else (Inr None, s))"

text \<open>
  The \<open>message\<close> callback of a socket: a payload that does not parse, or a message that
  makes \<open>handleClientMessage\<close> raise, is logged and dropped. What is returned beside the
  server is the rejection of the promise nobody awaits, if there is one.
\<close>

definition on_message ::
  "(string \<Rightarrow> js option) \<Rightarrow> env \<Rightarrow> string \<Rightarrow> string \<Rightarrow> StreamingServer
     \<Rightarrow> exn option \<times> StreamingServer" where
  "on_message parse orc connectionId payload s =
     (case parse payload of
        None \<Rightarrow> (None, s)
      | Some message \<Rightarrow>
          (case handleClientMessage orc connectionId message s of
             (Inl e, s1) \<Rightarrow> (None, s1)
           | (Inr rejected, s1) \<Rightarrow> (rejected, s1)))"

text \<open>The frames a connection's socket has taken, oldest first.\<close>

definition frames_to :: "string \<Rightarrow> (string \<times> frame) list \<Rightarrow> frame list" where
  "frames_to connectionId w = map snd (filter (\<lambda>(k, f). k = connectionId) w)"

subsection \<open>Runs of a server\<close>

text \<open>
  What can happen to a server object after its construction, one event-loop task at a
  time: calls of its public methods, the interval of the heartbeat timer elapsing, a
  client connecting, a socket closing.
\<close>

datatype op =
    OpStart "nat \<Rightarrow> bind_outcome"
  | OpStop
  | OpIntervalElapsed
  | OpUpdateConfig ConfigOverride
  | OpBroadcast StreamEvent
  | OpConnection WebSocket
  | OpClose string

fun step :: "env \<Rightarrow> op \<Rightarrow> StreamingServer \<Rightarrow> StreamingServer" where
  "step orc (OpStart listen) s = snd (start listen s)"
| "step orc OpStop s = stop s"
| "step orc OpIntervalElapsed s = interval_elapsed orc s"
| "step orc (OpUpdateConfig newConfig) s = updateConfig newConfig s"
| "step orc (OpBroadcast ev) s = broadcastEvent ev s"
| "step orc (OpConnection ws) s = on_connection orc ws s"
| "step orc (OpClose connectionId) s = on_close connectionId s"

fun run :: "env \<Rightarrow> op list \<Rightarrow> StreamingServer \<Rightarrow> StreamingServer" where
  "run orc [] s = s"
| "run orc (x # xs) s = run orc xs (step orc x s)"

fun is_heartbeat :: "emitted_event \<Rightarrow> bool" where
  "is_heartbeat (EventBroadcast ev) = (etype ev = Some ''heartbeat'')"
| "is_heartbeat e = False"

text \<open>The number of heartbeat events the server has broadcast so far.\<close>

definition heartbeats :: "StreamingServer \<Rightarrow> nat" where
  "heartbeats s = length (filter is_heartbeat (emitted s))"

fun is_stop :: "op \<Rightarrow> bool" where
  "is_stop OpStop = True"
| "is_stop x = False"

fun is_tick :: "op \<Rightarrow> bool" where
  "is_tick OpIntervalElapsed = True"
| "is_tick x = False"

fun foreign_heartbeat :: "op \<Rightarrow> bool" where
  "foreign_heartbeat (OpBroadcast ev) = (etype ev = Some ''heartbeat'')"
| "foreign_heartbeat x = False"

subsection \<open>Concrete inputs\<close>

definition env0 :: env where
  "env0 = \<lparr>Date_now = (\<lambda>k. int k), Math_random = (\<lambda>k. ''x'')\<rparr>"

definition parse0 :: "string \<Rightarrow> js option" where
  "parse0 s =
     (if s = ''{\"tool\":\"readFile\",\"path\":\"a.ts\",\"content\":\"abc\"}''
      then Some (JObj [(''tool'', JStr ''readFile''), (''path'', JStr ''a.ts''),
                       (''content'', JStr ''abc'')])
      else None)"

definition message0 :: ClineMessage where
  "message0 =
     \<lparr>ts = Some 7, mtype = ''say'', ask = None, say = Some ''text'', mtext = Some ''hello'',
      images = None, partial = None, reasoning = None\<rparr>"

definition tool_message0 :: ClineMessage where
  "tool_message0 =
     \<lparr>ts = Some 7, mtype = ''ask'', ask = Some ''tool'', say = None,
      mtext = Some ''{\"tool\":\"readFile\",\"path\":\"a.ts\",\"content\":\"abc\"}'',
      images = None, partial = None, reasoning = None\<rparr>"

text \<open>The correlation ids of the function call and function response parts of a result.\<close>

fun part_id :: "Part \<Rightarrow> string option" where
  "part_id (Text t th) = None"
| "part_id (FunctionCall name args i) = i"
| "part_id (FunctionResponse name response i) = i"

definition event_ids :: "StreamEvent \<Rightarrow> string option list" where
  "event_ids e =
     (case content e of
        None \<Rightarrow> []
      | Some c \<Rightarrow> (case parts c of None \<Rightarrow> [] | Some ps \<Rightarrow> map part_id ps))"

definition correlation_ids :: "exn + (StreamEvent list option \<times> nat) \<Rightarrow> string option list" where
  "correlation_ids r =
     (case r of
        Inr (Some es, n) \<Rightarrow> concat (map event_ids es)
      | _ \<Rightarrow> [])"

text \<open>
  What a write to a connection does during a broadcast: it raises when the socket is open
  and its \<open>send\<close> raises, it delivers when the socket is open and \<open>send\<close> returns, and
  nothing is written otherwise.
\<close>

definition write_throws :: "StreamClientConnection \<Rightarrow> bool" where
  "write_throws c =
     (case websocket c of None \<Rightarrow> False | Some ws \<Rightarrow> readyState ws = OPEN \<and> send_throws ws)"

definition write_delivers :: "StreamClientConnection \<Rightarrow> bool" where
  "write_delivers c =
     (case websocket c of
        None \<Rightarrow> False
      | Some ws \<Rightarrow> readyState ws = OPEN \<and> \<not> send_throws ws)"

definition timer_active :: "StreamingServer \<Rightarrow> bool" where
  "timer_active s = (case heartbeatTimer s of None \<Rightarrow> False | Some t \<Rightarrow> active t)"

definition no_override :: ConfigOverride where
  "no_override =
     \<lparr>o_enabled = None, o_port = None, o_portRange = None, o_logging = None,
      o_loggingLevel = None, o_connectionTimeout = None, o_heartbeatInterval = None\<rparr>"

definition open_ws :: WebSocket where
  "open_ws = \<lparr>readyState = OPEN, send_throws = False\<rparr>"

definition broken_ws :: WebSocket where
  "broken_ws = \<lparr>readyState = OPEN, send_throws = True\<rparr>"

definition closing_ws :: WebSocket where
  "closing_ws = \<lparr>readyState = CLOSING, send_throws = False\<rparr>"

definition client :: "string \<Rightarrow> WebSocket \<Rightarrow> string \<times> StreamClientConnection" where
  "client k ws = (k, \<lparr>conn_id = k, connectedAt = 0, websocket = Some ws\<rparr>)"

definition server0 :: StreamingServer where
  "server0 = new_StreamingServer no_override"

definition event0 :: StreamEvent where
  "event0 =
     \<lparr>event_id = ''event_1_y'', timestamp = 1, task_id = Some ''task'', content = None,
      etype = Some ''taskStarted'', data = None\<rparr>"

definition command0 :: WebSocketTaskCommand where
  "command0 = \<lparr>commandName = JStr ''CancelTask'', cmd_data = JNull\<rparr>"

text \<open>Ports 3001 and 3002 are taken, every other port is free.\<close>

definition listen0 :: "nat \<Rightarrow> bind_outcome" where
  "listen0 p = (if p = 3001 \<or> p = 3002 then AddrInUse else Listening)"

text \<open>Port 3001 is taken and binding port 3002 is refused.\<close>

definition listen1 :: "nat \<Rightarrow> bind_outcome" where
  "listen1 p = (if p = 3001 then AddrInUse else BindFailure ''EACCES'')"

text \<open>Binding any port is refused.\<close>

definition listen2 :: "nat \<Rightarrow> bind_outcome" where
  "listen2 p = BindFailure ''EACCES''"

section \<open>Properties of the transformers\<close>

lemma streamEvents_one:
  "streamEvents orc n taskId d [c] =
     ([\<lparr>event_id = fst (generateEventId orc n), timestamp = Date_now orc (n + 2),
        task_id = Some taskId, content = Some c, etype = Some ''message'', data = d\<rparr>],
      n + 3)"
  by (simp add: generateEventId_def)

lemma streamEvents_two:
  "streamEvents orc n taskId d [c, c'] =
     ([\<lparr>event_id = fst (generateEventId orc n), timestamp = Date_now orc (n + 2),
        task_id = Some taskId, content = Some c, etype = Some ''message'', data = d\<rparr>,
       \<lparr>event_id = fst (generateEventId orc (n + 3)), timestamp = Date_now orc (n + 5),
        task_id = Some taskId, content = Some c', etype = Some ''message'', data = d\<rparr>],
      n + 6)"
  by (simp add: generateEventId_def numeral_eq_Suc)

lemma transformMessageEvent_of_content:
  assumes "partial m \<noteq> Some True"
    and "messageToGenAIContent parse m = Inr \<lparr>out_content = Some (c # cs), out_data = d\<rparr>"
  shows "transformMessageEvent parse orc n taskId (Some m) =
           Inr (Some (fst (streamEvents orc n taskId d (c # cs))),
                snd (streamEvents orc n taskId d (c # cs)))"
  using assms
  by (simp add: transformMessageEvent_def transformMessageEvent_try_def case_prod_beta
           del: streamEvents.simps)

lemma or_else_cases: "or_else t d = (case t of Some (c # cs) \<Rightarrow> c # cs | _ \<Rightarrow> d)"
  by (cases t) (auto split: list.splits)

text \<open>
  C1. Whatever the task id and the message, also a missing message or one without a
  timestamp, \<open>transformMessageEvent\<close> returns: either what its \<open>try\<close> block returns, or,
  when that block raises, a single event of type \<open>error\<close> whose data describe the
  failure. This holds for the transformer that returns a sequence and for the one that
  returns a single event.
\<close>

theorem transformMessageEvent_never_raises:
  "(\<exists>r. transformMessageEvent parse orc n taskId message = Inr r \<and>
      (transformMessageEvent_try parse orc n taskId message = Inr r \<or>
       (\<exists>e ev. transformMessageEvent_try parse orc n taskId message = Inl e \<and>
          r = (Some [ev], n + 3) \<and> etype ev = Some ''error'' \<and> content ev = None \<and>
          data ev = Some (JObj [(''error'',
            JStr (''Error transforming message: '' @ message_of e))])))) \<and>
   (\<exists>r. transformMessageEvent_single orc n taskId message = Inr r \<and>
      (transformMessageEvent_single_try orc n taskId message = Inr r \<or>
       (\<exists>e ev. transformMessageEvent_single_try orc n taskId message = Inl e \<and>
          r = (Some ev, n + 3) \<and> etype ev = Some ''error'' \<and> content ev = None \<and>
          data ev = Some (JObj [(''error'',
            JStr (''Error transforming message: '' @ message_of e))]))))"
proof
  show "\<exists>r. transformMessageEvent parse orc n taskId message = Inr r \<and>
      (transformMessageEvent_try parse orc n taskId message = Inr r \<or>
       (\<exists>e ev. transformMessageEvent_try parse orc n taskId message = Inl e \<and>
          r = (Some [ev], n + 3) \<and> etype ev = Some ''error'' \<and> content ev = None \<and>
          data ev = Some (JObj [(''error'',
            JStr (''Error transforming message: '' @ message_of e))])))"
    by (cases "transformMessageEvent_try parse orc n taskId message")
       (auto simp: transformMessageEvent_def error_event_def generateEventId_def)
  show "\<exists>r. transformMessageEvent_single orc n taskId message = Inr r \<and>
      (transformMessageEvent_single_try orc n taskId message = Inr r \<or>
       (\<exists>e ev. transformMessageEvent_single_try orc n taskId message = Inl e \<and>
          r = (Some ev, n + 3) \<and> etype ev = Some ''error'' \<and> content ev = None \<and>
          data ev = Some (JObj [(''error'',
            JStr (''Error transforming message: '' @ message_of e))])))"
    by (cases "transformMessageEvent_single_try orc n taskId message")
       (auto simp: transformMessageEvent_single_def error_event_def generateEventId_def)
qed

theorem transformMessageEvent_never_raises_witness:
  "transformMessageEvent_try parse0 env0 0 ''task'' None =
     Inl (TypeError ''Cannot read properties of undefined (reading partial)'') \<and>
   transformMessageEvent parse0 env0 0 ''task'' None =
     Inr (Some [\<lparr>event_id = ''event_0_x'', timestamp = 2, task_id = Some ''task'',
                 content = None, etype = Some ''error'',
                 data = Some (JObj [(''error'', JStr
                   ''Error transforming message: Cannot read properties of undefined (reading partial)'')])\<rparr>],
          3) \<and>
   transformMessageEvent_single env0 0 ''task'' (Some (message0\<lparr>ts := None, say := Some ''command_output''\<rparr>)) =
     Inr (Some \<lparr>event_id = ''event_0_x'', timestamp = 2, task_id = Some ''task'',
                 content = None, etype = Some ''error'',
                 data = Some (JObj [(''error'', JStr
                   ''Error transforming message: Cannot read properties of undefined (reading toString)'')])\<rparr>,
          3)"
  using transformMessageEvent_never_raises [of parse0 env0 0 "''task''" None]
  by (simp add: transformMessageEvent_def transformMessageEvent_try_def error_event_def
        transformMessageEvent_single_def transformMessageEvent_single_try_def
        messageToGenAIContent_single_def transformSayMessage_single_def ts_toString_def
        generateEventId_def env0_def message0_def toString_def nat_toString.simps)

lemma transformSayMessage_single_partial:
  "transformSayMessage_single (m\<lparr>partial := p\<rparr>) = transformSayMessage_single m"
  by (simp add: transformSayMessage_single_def ts_toString_def images_prop_def Let_def
          cong: if_cong sum.case_cong option.case_cong list.case_cong)

text \<open>
  The transformer that returns a sequence drops every message whose partial flag is set,
  and asks the environment nothing for it.
\<close>

lemma sequence_transformer_drops_partial:
  "partial m = Some True \<Longrightarrow>
   transformMessageEvent parse orc n taskId (Some m) = Inr (None, n)"
  by (simp add: transformMessageEvent_def transformMessageEvent_try_def)

text \<open>
  The transformer that returns a single event never reads the flag: whatever the flag is
  set to, the result is that of the message as it stands.
\<close>

lemma single_transformer_ignores_partial:
  "transformMessageEvent_single orc n taskId (Some (m\<lparr>partial := p\<rparr>)) =
     transformMessageEvent_single orc n taskId (Some m)"
  by (simp add: transformMessageEvent_single_def transformMessageEvent_single_try_def
        messageToGenAIContent_single_def transformSayMessage_single_partial)

text \<open>
  C2. A message whose partial flag is set must yield no event. The transformer that
  returns a sequence keeps to this. The transformer that returns a single event, whose
  result the extension hands to \<open>broadcastEvent\<close>, does not: the partial informational
  text message that the former drops is turned by the latter into a \<open>message\<close> event.
\<close>

theorem partial_message_is_transformed:
  "partial (message0\<lparr>partial := Some True\<rparr>) = Some True \<and>
   transformMessageEvent parse0 env0 0 ''task'' (Some (message0\<lparr>partial := Some True\<rparr>)) =
     Inr (None, 0) \<and>
   transformMessageEvent_single env0 0 ''task'' (Some (message0\<lparr>partial := Some True\<rparr>)) =
     Inr (Some \<lparr>event_id = ''event_0_x'', timestamp = 2, task_id = Some ''task'',
                content = Some \<lparr>role = ''model'', parts = Some [Text ''hello'' None]\<rparr>,
                etype = Some ''message'', data = None\<rparr>, 3)"
  by (simp add: sequence_transformer_drops_partial
        transformMessageEvent_single_def transformMessageEvent_single_try_def
        messageToGenAIContent_single_def transformSayMessage_single_def message0_def env0_def
        generateEventId_def toString_def nat_toString.simps envelope_def)

lemma transformSayMessage_dropped:
  "say m \<in> Some ` set say_dropped \<Longrightarrow> transformSayMessage m = Inr nothing"
  by (simp add: transformSayMessage_def Let_def)

lemma transformSayMessage_default:
  "say m \<notin> Some ` set say_table \<Longrightarrow>
   transformSayMessage m =
     Inr (one_part ''model'' (Text (or_else (mtext m) (bracketed (say m))) None) (say_data m))"
  by (simp add: transformSayMessage_def Let_def say_table_def say_dropped_def)

lemma transformAskMessage_default:
  "ask m \<notin> Some ` set ask_table \<Longrightarrow> transformAskMessage parse m = Inr (ask_default m)"
proof (cases "ask m")
  case None
  then show ?thesis by (simp add: transformAskMessage_def)
next
  case (Some c)
  assume "ask m \<notin> Some ` set ask_table"
  with Some show ?thesis
    by (simp add: transformAskMessage_def ask_table_def ask_fallback_def)
qed

lemma say_dropped_result:
  assumes "mtype m = ''say''" and "partial m \<noteq> Some True"
    and "say m \<in> Some ` set say_dropped"
  shows "transformMessageEvent parse orc n taskId (Some m) = Inr (None, n)"
  using assms
  by (simp add: transformMessageEvent_def transformMessageEvent_try_def
        messageToGenAIContent_def transformSayMessage_dropped nothing_def)

lemma say_default_result:
  assumes a: "mtype m = ''say''" "partial m \<noteq> Some True" "say m \<notin> Some ` set say_table"
  shows "transformMessageEvent parse orc n taskId (Some m) =
     Inr (Some [\<lparr>event_id = fst (generateEventId orc n), timestamp = Date_now orc (n + 2),
                 task_id = Some taskId,
                 content = Some \<lparr>role = ''model'', parts = Some
                   [Text (case mtext m of Some (c # cs) \<Rightarrow> c # cs
                          | _ \<Rightarrow> ''['' @ template (say m) @ '']'') None]\<rparr>,
                 etype = Some ''message'',
                 data = Some (JObj [(''say'', js_of (say m))])\<rparr>], n + 3)"
proof -
  have "messageToGenAIContent parse m =
          Inr \<lparr>out_content = Some [\<lparr>role = ''model'',
                  parts = Some [Text (or_else (mtext m) (bracketed (say m))) None]\<rparr>],
               out_data = Some (say_data m)\<rparr>"
    using a(1,3) by (simp add: messageToGenAIContent_def transformSayMessage_default one_part_def)
  from transformMessageEvent_of_content [OF a(2) this] show ?thesis
    by (simp only: streamEvents_one fst_conv snd_conv or_else_cases bracketed_def say_data_def)
qed

lemma ask_default_result:
  assumes a: "mtype m = ''ask''" "partial m \<noteq> Some True" "ask m \<notin> Some ` set ask_table"
  shows "transformMessageEvent parse orc n taskId (Some m) =
     Inr (Some [\<lparr>event_id = fst (generateEventId orc n), timestamp = Date_now orc (n + 2),
                 task_id = Some taskId,
                 content = Some \<lparr>role = ''model'', parts = Some
                   [Text (case mtext m of Some (c # cs) \<Rightarrow> c # cs
                          | _ \<Rightarrow> ''['' @ template (ask m) @ '']'') None]\<rparr>,
                 etype = Some ''message'',
                 data = Some (JObj [(''ask'', js_of (ask m)),
                                    (''message'', js_of (mtext m))])\<rparr>], n + 3)"
proof -
  have "messageToGenAIContent parse m =
          Inr \<lparr>out_content = Some [\<lparr>role = ''model'',
                  parts = Some [Text (or_else (mtext m) (bracketed (ask m))) None]\<rparr>],
               out_data = Some (JObj [(''ask'', js_of (ask m)),
                                      (''message'', js_of (mtext m))])\<rparr>"
    using a(1,3)
    by (simp add: messageToGenAIContent_def transformAskMessage_default ask_default_def
          one_part_def)
  from transformMessageEvent_of_content [OF a(2) this] show ?thesis
    by (simp only: streamEvents_one fst_conv snd_conv or_else_cases bracketed_def)
qed

text \<open>
  C6, as amended. A finalized informational message of a dropped category yields \<open>null\<close>.
  A finalized message whose category is in neither table yields exactly one event with
  exactly one text part: the message text when there is one that is not empty, and only
  otherwise the category name in brackets.
\<close>

theorem dropped_and_unknown_categories:
  "(mtype m = ''say'' \<and> partial m \<noteq> Some True \<and> say m \<in> Some ` set say_dropped \<longrightarrow>
      transformMessageEvent parse orc n taskId (Some m) = Inr (None, n)) \<and>
   (mtype m = ''say'' \<and> partial m \<noteq> Some True \<and>
    say m \<notin> Some ` (set say_table \<union> set ask_table) \<longrightarrow>
      transformMessageEvent parse orc n taskId (Some m) =
        Inr (Some [\<lparr>event_id = fst (generateEventId orc n), timestamp = Date_now orc (n + 2),
                    task_id = Some taskId,
                    content = Some \<lparr>role = ''model'', parts = Some
                      [Text (case mtext m of Some (c # cs) \<Rightarrow> c # cs
                             | _ \<Rightarrow> ''['' @ template (say m) @ '']'') None]\<rparr>,
                    etype = Some ''message'',
                    data = Some (JObj [(''say'', js_of (say m))])\<rparr>], n + 3)) \<and>
   (mtype m = ''ask'' \<and> partial m \<noteq> Some True \<and>
    ask m \<notin> Some ` (set say_table \<union> set ask_table) \<longrightarrow>
      transformMessageEvent parse orc n taskId (Some m) =
        Inr (Some [\<lparr>event_id = fst (generateEventId orc n), timestamp = Date_now orc (n + 2),
                    task_id = Some taskId,
                    content = Some \<lparr>role = ''model'', parts = Some
                      [Text (case mtext m of Some (c # cs) \<Rightarrow> c # cs
                             | _ \<Rightarrow> ''['' @ template (ask m) @ '']'') None]\<rparr>,
                    etype = Some ''message'',
                    data = Some (JObj [(''ask'', js_of (ask m)),
                                       (''message'', js_of (mtext m))])\<rparr>], n + 3))"
proof (intro conjI impI)
  assume "mtype m = ''say'' \<and> partial m \<noteq> Some True \<and> say m \<in> Some ` set say_dropped"
  then show "transformMessageEvent parse orc n taskId (Some m) = Inr (None, n)"
    by (simp add: say_dropped_result)
next
  assume a: "mtype m = ''say'' \<and> partial m \<noteq> Some True \<and>
             say m \<notin> Some ` (set say_table \<union> set ask_table)"
  then have b: "say m \<notin> Some ` set say_table" by blast
  from a have "mtype m = ''say''" and "partial m \<noteq> Some True" by simp_all
  then show "transformMessageEvent parse orc n taskId (Some m) =
        Inr (Some [\<lparr>event_id = fst (generateEventId orc n), timestamp = Date_now orc (n + 2),
                    task_id = Some taskId,
                    content = Some \<lparr>role = ''model'', parts = Some
                      [Text (case mtext m of Some (c # cs) \<Rightarrow> c # cs
                             | _ \<Rightarrow> ''['' @ template (say m) @ '']'') None]\<rparr>,
                    etype = Some ''message'',
                    data = Some (JObj [(''say'', js_of (say m))])\<rparr>], n + 3)"
    using b by (rule say_default_result)
next
  assume a: "mtype m = ''ask'' \<and> partial m \<noteq> Some True \<and>
             ask m \<notin> Some ` (set say_table \<union> set ask_table)"
  then have b: "ask m \<notin> Some ` set ask_table" by blast
  from a have "mtype m = ''ask''" and "partial m \<noteq> Some True" by simp_all
  then show "transformMessageEvent parse orc n taskId (Some m) =
        Inr (Some [\<lparr>event_id = fst (generateEventId orc n), timestamp = Date_now orc (n + 2),
                    task_id = Some taskId,
                    content = Some \<lparr>role = ''model'', parts = Some
                      [Text (case mtext m of Some (c # cs) \<Rightarrow> c # cs
                             | _ \<Rightarrow> ''['' @ template (ask m) @ '']'') None]\<rparr>,
                    etype = Some ''message'',
                    data = Some (JObj [(''ask'', js_of (ask m)),
                                       (''message'', js_of (mtext m))])\<rparr>], n + 3)"
    using b by (rule ask_default_result)
qed

theorem dropped_and_unknown_categories_witness:
  "transformMessageEvent parse0 env0 0 ''task''
     (Some (message0\<lparr>say := Some ''checkpoint_saved''\<rparr>)) = Inr (None, 0) \<and>
   transformMessageEvent parse0 env0 0 ''task''
     (Some (message0\<lparr>say := Some ''custom'', mtext := None\<rparr>)) =
     Inr (Some [\<lparr>event_id = ''event_0_x'', timestamp = 2, task_id = Some ''task'',
                 content = Some \<lparr>role = ''model'', parts = Some [Text ''[custom]'' None]\<rparr>,
                 etype = Some ''message'',
                 data = Some (JObj [(''say'', JStr ''custom'')])\<rparr>], 3) \<and>
   transformMessageEvent parse0 env0 0 ''task''
     (Some (message0\<lparr>mtype := ''ask'', ask := Some ''custom'', mtext := Some ''why''\<rparr>)) =
     Inr (Some [\<lparr>event_id = ''event_0_x'', timestamp = 2, task_id = Some ''task'',
                 content = Some \<lparr>role = ''model'', parts = Some [Text ''why'' None]\<rparr>,
                 etype = Some ''message'',
                 data = Some (JObj [(''ask'', JStr ''custom''),
                                    (''message'', JStr ''why'')])\<rparr>], 3)"
  using dropped_and_unknown_categories
          [of "message0\<lparr>say := Some ''checkpoint_saved''\<rparr>" parse0 env0 0 "''task''"]
        dropped_and_unknown_categories
          [of "message0\<lparr>say := Some ''custom'', mtext := None\<rparr>" parse0 env0 0 "''task''"]
        dropped_and_unknown_categories
          [of "message0\<lparr>mtype := ''ask'', ask := Some ''custom'', mtext := Some ''why''\<rparr>"
              parse0 env0 0 "''task''"]
  by (simp add: message0_def say_table_def say_dropped_def ask_table_def ask_fallback_def
        generateEventId_def env0_def toString_def nat_toString.simps)

text \<open>
  The claim as written fails: an informational message of an unknown category that
  carries text yields the text alone, with no bracketed category name in it.
\<close>

theorem unknown_category_counterexample:
  "''custom'' \<notin> set say_table \<union> set ask_table \<and>
   transformMessageEvent parse0 env0 0 ''task'' (Some (message0\<lparr>say := Some ''custom''\<rparr>)) =
     Inr (Some [\<lparr>event_id = ''event_0_x'', timestamp = 2, task_id = Some ''task'',
                 content = Some \<lparr>role = ''model'', parts = Some [Text ''hello'' None]\<rparr>,
                 etype = Some ''message'',
                 data = Some (JObj [(''say'', JStr ''custom'')])\<rparr>], 3) \<and>
   \<not> sublist ''[custom]'' ''hello''"
  by (simp add: transformMessageEvent_def transformMessageEvent_try_def
        messageToGenAIContent_def transformSayMessage_def say_table_def say_dropped_def
        ask_table_def ask_fallback_def one_part_def say_data_def bracketed_def
        generateEventId_def env0_def message0_def toString_def nat_toString.simps
        sublist_code)

text \<open>
  C7. A finalized \<open>tool\<close> request whose text parses to an object with inline \<open>content\<close>
  yields two events, a function call and a function response, both with the decimal
  rendering of the message timestamp as correlation id. The ids are the same for every
  answer of the environment, every counter and every task id: transforming the same
  message again gives the same ids.
\<close>

theorem tool_pair_shares_correlation_id:
  assumes "mtype m = ''ask''" and "ask m = Some ''tool''" and "partial m \<noteq> Some True"
    and "mtext m = Some (c # cs)" and "parse (c # cs) = Some (JObj kvs)"
    and "map_of kvs ''content'' = Some v" and "v \<noteq> JUndefined" and "ts m = Some t"
  shows "transformMessageEvent parse orc n taskId (Some m) =
    Inr (Some [\<lparr>event_id = fst (generateEventId orc n), timestamp = Date_now orc (n + 2),
                 task_id = Some taskId,
                 content = Some \<lparr>role = ''model'', parts = Some [FunctionCall
                      (case map_of kvs ''tool'' of None \<Rightarrow> JUndefined | Some x \<Rightarrow> x)
                      (filter (\<lambda>(k, x). k \<noteq> ''tool'' \<and> k \<noteq> ''content'') kvs)
                      (Some (toString t))]\<rparr>,
                 etype = Some ''message'', data = Some (JObj [(''ask'', JStr ''tool'')])\<rparr>,
               \<lparr>event_id = fst (generateEventId orc (n + 3)), timestamp = Date_now orc (n + 5),
                 task_id = Some taskId,
                 content = Some \<lparr>role = ''user'', parts = Some [FunctionResponse
                      (case map_of kvs ''tool'' of None \<Rightarrow> JUndefined | Some x \<Rightarrow> x)
                      [(''content'', v)]
                      (Some (toString t))]\<rparr>,
                 etype = Some ''message'', data = Some (JObj [(''ask'', JStr ''tool'')])\<rparr>],
         n + 6) \<and>
    correlation_ids (transformMessageEvent parse orc n taskId (Some m)) =
      [Some (toString t), Some (toString t)] \<and>
    correlation_ids (transformMessageEvent parse orc' n' taskId' (Some m)) =
      correlation_ids (transformMessageEvent parse orc n taskId (Some m))"
proof -
  have g: "messageToGenAIContent parse m = Inr \<lparr>out_content = Some [
       \<lparr>role = ''model'', parts = Some [FunctionCall
                      (case map_of kvs ''tool'' of None \<Rightarrow> JUndefined | Some x \<Rightarrow> x)
                      (filter (\<lambda>(k, x). k \<noteq> ''tool'' \<and> k \<noteq> ''content'') kvs)
                      (Some (toString t))]\<rparr>,
       \<lparr>role = ''user'', parts = Some [FunctionResponse
                      (case map_of kvs ''tool'' of None \<Rightarrow> JUndefined | Some x \<Rightarrow> x)
                      [(''content'', v)]
                      (Some (toString t))]\<rparr>], out_data = Some (JObj [(''ask'', JStr ''tool'')])\<rparr>"
    using assms
    by (simp add: messageToGenAIContent_def transformAskMessage_def tool_try_def
          ts_toString_def tool_call_def tool_response_def ask_data_def)
  have r: "transformMessageEvent parse o' k' t' (Some m) =
    Inr (Some [\<lparr>event_id = fst (generateEventId o' k'), timestamp = Date_now o' (k' + 2),
                 task_id = Some t',
                 content = Some \<lparr>role = ''model'', parts = Some [FunctionCall
                      (case map_of kvs ''tool'' of None \<Rightarrow> JUndefined | Some x \<Rightarrow> x)
                      (filter (\<lambda>(k, x). k \<noteq> ''tool'' \<and> k \<noteq> ''content'') kvs)
                      (Some (toString t))]\<rparr>,
                 etype = Some ''message'', data = Some (JObj [(''ask'', JStr ''tool'')])\<rparr>,
               \<lparr>event_id = fst (generateEventId o' (k' + 3)), timestamp = Date_now o' (k' + 5),
                 task_id = Some t',
                 content = Some \<lparr>role = ''user'', parts = Some [FunctionResponse
                      (case map_of kvs ''tool'' of None \<Rightarrow> JUndefined | Some x \<Rightarrow> x)
                      [(''content'', v)]
                      (Some (toString t))]\<rparr>,
                 etype = Some ''message'', data = Some (JObj [(''ask'', JStr ''tool'')])\<rparr>],
         k' + 6)" for o' k' t'
    using transformMessageEvent_of_content [OF assms(3) g, of o' k' t']
    by (simp only: streamEvents_two fst_conv snd_conv)
  have i: "correlation_ids (transformMessageEvent parse o' k' t' (Some m)) =
             [Some (toString t), Some (toString t)]" for o' k' t'
    by (simp add: r correlation_ids_def event_ids_def)
  show ?thesis
  proof (intro conjI)
    show "correlation_ids (transformMessageEvent parse orc n taskId (Some m)) =
            [Some (toString t), Some (toString t)]"
      by (rule i)
    show "correlation_ids (transformMessageEvent parse orc' n' taskId' (Some m)) =
            correlation_ids (transformMessageEvent parse orc n taskId (Some m))"
      by (simp only: i)
  qed (rule r)
qed

theorem tool_pair_shares_correlation_id_witness:
  "correlation_ids (transformMessageEvent parse0 env0 0 ''task'' (Some tool_message0)) =
     [Some ''7'', Some ''7''] \<and>
   transformMessageEvent parse0 env0 0 ''task'' (Some tool_message0) =
     Inr (Some [\<lparr>event_id = ''event_0_x'', timestamp = 2, task_id = Some ''task'',
                 content = Some \<lparr>role = ''model'', parts = Some
                   [FunctionCall (JStr ''readFile'') [(''path'', JStr ''a.ts'')] (Some ''7'')]\<rparr>,
                 etype = Some ''message'', data = Some (JObj [(''ask'', JStr ''tool'')])\<rparr>,
               \<lparr>event_id = ''event_3_x'', timestamp = 5, task_id = Some ''task'',
                 content = Some \<lparr>role = ''user'', parts = Some
                   [FunctionResponse (JStr ''readFile'') [(''content'', JStr ''abc'')]
                      (Some ''7'')]\<rparr>,
                 etype = Some ''message'', data = Some (JObj [(''ask'', JStr ''tool'')])\<rparr>],
          6)"
  using tool_pair_shares_correlation_id
          [of tool_message0 "CHR ''{''"
              "''\"tool\":\"readFile\",\"path\":\"a.ts\",\"content\":\"abc\"}''" parse0
              "[(''tool'', JStr ''readFile''), (''path'', JStr ''a.ts''),
                (''content'', JStr ''abc'')]"
              "JStr ''abc''" 7 env0 0 "''task''" env0 0 "''task''"]
  by (simp add: tool_message0_def parse0_def generateEventId_def env0_def toString_def
        nat_toString.simps correlation_ids_def event_ids_def)

section \<open>Properties of the streaming server\<close>

subsection \<open>One broadcast\<close>

lemma broadcast_loop_Cons:
  "broadcast_loop f ((k, c) # rest) s =
     broadcast_loop f rest
       (if write_throws c then s\<lparr>connections := map_delete k (connections s)\<rparr>
        else if write_delivers c then s\<lparr>wire := wire s @ [(k, f)]\<rparr> else s)"
  by (auto simp: write_throws_def write_delivers_def sendToWebSocketClient_def
          split: option.splits)

lemma broadcast_loop_frame:
  "config (broadcast_loop f cs s) = config s \<and>
   heartbeatTimer (broadcast_loop f cs s) = heartbeatTimer s \<and>
   taskCommandHandler (broadcast_loop f cs s) = taskCommandHandler s \<and>
   listening (broadcast_loop f cs s) = listening s \<and>
   listen_log (broadcast_loop f cs s) = listen_log s \<and>
   emitted (broadcast_loop f cs s) = emitted s \<and>
   clock (broadcast_loop f cs s) = clock s"
proof (induction cs arbitrary: s)
  case Nil
  show ?case by simp
next
  case (Cons x cs)
  obtain k c where x: "x = (k, c)" by (cases x)
  show ?case unfolding x broadcast_loop_Cons by (simp add: Cons.IH)
qed

lemma broadcast_loop_wire:
  "wire (broadcast_loop f cs s) =
     wire s @ map (\<lambda>(k, c). (k, f)) (filter (\<lambda>(k, c). write_delivers c) cs)"
proof (induction cs arbitrary: s)
  case Nil
  show ?case by simp
next
  case (Cons x cs)
  obtain k c where x: "x = (k, c)" by (cases x)
  show ?case unfolding x broadcast_loop_Cons
    by (auto simp: Cons.IH write_throws_def write_delivers_def split: option.splits)
qed

lemma broadcast_loop_connections:
  "connections (broadcast_loop f cs s) =
     filter (\<lambda>(k, c). k \<notin> fst ` {x \<in> set cs. write_throws (snd x)}) (connections s)"
proof (induction cs arbitrary: s)
  case Nil
  show ?case by simp
next
  case (Cons x cs)
  obtain k c where x: "x = (k, c)" by (cases x)
  show ?case unfolding x broadcast_loop_Cons
    apply (simp add: Cons.IH map_delete_def)
    apply (intro conjI impI filter_cong refl)
     apply (auto simp: image_iff)
    done
qed

lemma same_key_same_connection:
  assumes "distinct (map fst cs)" and "(k, c) \<in> set cs" and "(k, c') \<in> set cs"
  shows "c' = c"
  using assms by (metis map_of_is_SomeI option.inject)

lemma filter_by_key_set:
  assumes "distinct (map fst cs)"
  shows "filter (\<lambda>(k, c). k \<notin> fst ` {x \<in> set cs. P (snd x)}) cs =
         filter (\<lambda>(k, c). \<not> P c) cs"
proof (rule filter_cong [OF refl])
  fix x assume x: "x \<in> set cs"
  obtain k c where kc: "x = (k, c)" by (cases x)
  have "k \<in> fst ` {x \<in> set cs. P (snd x)} \<longleftrightarrow> P c"
  proof
    assume "k \<in> fst ` {x \<in> set cs. P (snd x)}"
    then obtain c' where c': "(k, c') \<in> set cs" "P c'" by auto
    from assms x c'(1) have "c' = c" unfolding kc by (rule same_key_same_connection)
    with c' show "P c" by simp
  next
    assume "P c"
    with x kc show "k \<in> fst ` {x \<in> set cs. P (snd x)}" by force
  qed
  then show "(case x of (k, c) \<Rightarrow> k \<notin> fst ` {x \<in> set cs. P (snd x)}) =
             (case x of (k, c) \<Rightarrow> \<not> P c)"
    by (simp add: kc)
qed

lemma broadcastEvent_connections:
  "distinct (map fst (connections s)) \<Longrightarrow>
   connections (broadcastEvent ev s) = filter (\<lambda>(k, c). \<not> write_throws c) (connections s)"
  by (simp add: broadcastEvent_def Let_def broadcast_loop_connections filter_by_key_set)

lemma broadcastEvent_wire:
  "wire (broadcastEvent ev s) =
     wire s @ map (\<lambda>(k, c). (k, EventFrame ev))
                (filter (\<lambda>(k, c). write_delivers c) (connections s))"
  by (simp add: broadcastEvent_def Let_def broadcast_loop_wire)

lemma broadcastEvent_frame:
  "config (broadcastEvent ev s) = config s \<and>
   heartbeatTimer (broadcastEvent ev s) = heartbeatTimer s \<and>
   taskCommandHandler (broadcastEvent ev s) = taskCommandHandler s \<and>
   listening (broadcastEvent ev s) = listening s \<and>
   listen_log (broadcastEvent ev s) = listen_log s \<and>
   emitted (broadcastEvent ev s) = emitted s @ [EventBroadcast ev] \<and>
   clock (broadcastEvent ev s) = clock s"
  by (simp add: broadcastEvent_def Let_def broadcast_loop_frame)

lemma frames_to_append: "frames_to k (w @ w') = frames_to k w @ frames_to k w'"
  by (simp add: frames_to_def)

lemma frames_to_fresh:
  assumes "distinct (map fst cs)"
  shows "frames_to k (map (\<lambda>(k, c). (k, f)) (filter (\<lambda>(k, c). P c) cs)) =
           (if \<exists>c. (k, c) \<in> set cs \<and> P c then [f] else [])"
  using assms
proof (induction cs)
  case Nil
  show ?case by (simp add: frames_to_def)
next
  case (Cons x cs)
  obtain k' c' where x: "x = (k', c')" by (cases x)
  from Cons.prems have d: "distinct (map fst cs)" and n: "k' \<notin> fst ` set cs"
    by (auto simp: x)
  from n have n': "\<And>c. (k', c) \<notin> set cs" by force
  show ?case
  proof (cases "\<exists>c. (k, c) \<in> set cs \<and> P c")
    case True
    then have "k \<noteq> k'" using n' by auto
    with True Cons.IH [OF d] show ?thesis by (auto simp: x frames_to_def)
  next
    case False
    with Cons.IH [OF d] show ?thesis by (auto simp: x frames_to_def)
  qed
qed

lemma broadcastEvent_frames_to:
  assumes "distinct (map fst (connections s))"
  shows "frames_to k (wire (broadcastEvent ev s)) =
           frames_to k (wire s) @
           (if \<exists>c. (k, c) \<in> set (connections s) \<and> write_delivers c then [EventFrame ev]
            else [])"
  by (simp only: broadcastEvent_wire frames_to_append frames_to_fresh [OF assms])

lemma remove_one_key:
  assumes "distinct (map fst cs)" and "(K, cK) \<in> set cs"
  shows "Suc (length (filter (\<lambda>(k, c). k \<noteq> K) cs)) = length cs"
  using assms
proof (induction cs)
  case Nil
  then show ?case by simp
next
  case (Cons x cs)
  obtain k c where x: "x = (k, c)" by (cases x)
  from Cons.prems have d: "distinct (map fst cs)" and n: "k \<notin> fst ` set cs"
    by (auto simp: x)
  show ?case
  proof (cases "k = K")
    case True
    with n have "filter (\<lambda>(k, c). k \<noteq> K) cs = cs"
      by (auto simp: filter_id_conv image_iff)
    with True show ?thesis by (simp add: x)
  next
    case False
    with Cons.prems(2) have "(K, cK) \<in> set cs" by (simp add: x)
    from Cons.IH [OF d this] False show ?thesis by (simp add: x)
  qed
qed

text \<open>
  C4, as amended. In a registry where every connection holds an open socket and exactly
  one connection \<open>K\<close> has a write that raises, one \<open>broadcastEvent\<close> removes \<open>K\<close> and
  nobody else, so that one connection fewer is registered, every remaining connection
  takes exactly one new frame, the event, and \<open>K\<close> takes none.
\<close>

theorem broadcast_removes_failing_connection:
  assumes d: "distinct (map fst (connections s))"
    and K: "(K, cK) \<in> set (connections s)"
    and t: "write_throws cK"
    and o: "\<forall>(k, c) \<in> set (connections s). k \<noteq> K \<longrightarrow> write_delivers c"
  shows "connections (broadcastEvent ev s) = filter (\<lambda>(k, c). k \<noteq> K) (connections s) \<and>
         Suc (length (connections (broadcastEvent ev s))) = length (connections s) \<and>
         (\<forall>(k, c) \<in> set (connections (broadcastEvent ev s)).
            frames_to k (wire (broadcastEvent ev s)) = frames_to k (wire s) @ [EventFrame ev]) \<and>
         frames_to K (wire (broadcastEvent ev s)) = frames_to K (wire s)"
proof -
  have nt: "\<not> write_throws c" if "write_delivers c" for c
    using that by (auto simp: write_throws_def write_delivers_def split: option.splits)
  have "filter (\<lambda>(k, c). \<not> write_throws c) (connections s) =
        filter (\<lambda>(k, c). k \<noteq> K) (connections s)"
  proof (rule filter_cong [OF refl])
    fix x assume x: "x \<in> set (connections s)"
    obtain k c where kc: "x = (k, c)" by (cases x)
    show "(case x of (k, c) \<Rightarrow> \<not> write_throws c) = (case x of (k, c) \<Rightarrow> k \<noteq> K)"
    proof (cases "k = K")
      case True
      with d K x kc have "c = cK" by (metis same_key_same_connection)
      with True t show ?thesis by (simp add: kc)
    next
      case False
      with o x kc have "write_delivers c" by auto
      with False show ?thesis by (simp add: kc nt)
    qed
  qed
  then have c: "connections (broadcastEvent ev s) = filter (\<lambda>(k, c). k \<noteq> K) (connections s)"
    by (simp add: broadcastEvent_connections [OF d])
  have l: "Suc (length (connections (broadcastEvent ev s))) = length (connections s)"
    unfolding c using d K by (rule remove_one_key)
  have f: "frames_to k (wire (broadcastEvent ev s)) = frames_to k (wire s) @ [EventFrame ev]"
    if "(k, c) \<in> set (connections (broadcastEvent ev s))" for k c
  proof -
    from that have "(k, c) \<in> set (connections s)" and "k \<noteq> K" by (auto simp: c)
    with o have "\<exists>c. (k, c) \<in> set (connections s) \<and> write_delivers c" by auto
    then show ?thesis by (simp add: broadcastEvent_frames_to [OF d])
  qed
  have "\<not> (\<exists>c. (K, c) \<in> set (connections s) \<and> write_delivers c)"
  proof
    assume "\<exists>c. (K, c) \<in> set (connections s) \<and> write_delivers c"
    then obtain c where "(K, c) \<in> set (connections s)" and w: "write_delivers c" by auto
    with d K have "c = cK" by (metis same_key_same_connection)
    with w t nt show False by simp
  qed
  then have g: "frames_to K (wire (broadcastEvent ev s)) = frames_to K (wire s)"
    by (simp add: broadcastEvent_frames_to [OF d])
  from c l f g show ?thesis by auto
qed

theorem broadcast_removes_failing_connection_witness:
  "distinct (map fst [client ''a'' open_ws, client ''k'' broken_ws, client ''b'' open_ws]) \<and>
   write_throws (snd (client ''k'' broken_ws)) \<and>
   map fst (connections (broadcastEvent event0
     (server0\<lparr>connections := [client ''a'' open_ws, client ''k'' broken_ws,
                                client ''b'' open_ws]\<rparr>))) = [''a'', ''b''] \<and>
   wire (broadcastEvent event0
     (server0\<lparr>connections := [client ''a'' open_ws, client ''k'' broken_ws,
                                client ''b'' open_ws]\<rparr>)) =
     [(''a'', EventFrame event0), (''b'', EventFrame event0)]"
  using broadcast_removes_failing_connection
          [of "server0\<lparr>connections := [client ''a'' open_ws, client ''k'' broken_ws,
                                         client ''b'' open_ws]\<rparr>"
              "''k''" "snd (client ''k'' broken_ws)" event0]
  by (simp add: client_def open_ws_def broken_ws_def write_throws_def write_delivers_def
        broadcastEvent_wire server0_def new_StreamingServer_def setupHeartbeat_def)

text \<open>
  The claim as written fails: with one connection whose write raises and another whose
  socket is closing (its write raises nothing), the other connection takes no frame.
\<close>

theorem broadcast_other_without_frame_counterexample:
  "write_throws (snd (client ''k'' broken_ws)) \<and>
   \<not> write_throws (snd (client ''b'' closing_ws)) \<and>
   map fst (connections (broadcastEvent event0
     (server0\<lparr>connections := [client ''k'' broken_ws, client ''b'' closing_ws]\<rparr>))) = [''b''] \<and>
   frames_to ''b'' (wire (broadcastEvent event0
     (server0\<lparr>connections := [client ''k'' broken_ws, client ''b'' closing_ws]\<rparr>))) = []"
  by (simp add: client_def broken_ws_def closing_ws_def write_throws_def
        broadcastEvent_def sendToWebSocketClient_def map_delete_def frames_to_def
        server0_def new_StreamingServer_def setupHeartbeat_def)

text \<open>
  C10. A registered connection whose socket is not open stays registered through a
  broadcast and takes no frame from it; a connection that a broadcast removes is one
  whose socket is open and whose write raises.
\<close>

theorem closed_socket_stays_registered:
  assumes d: "distinct (map fst (connections s))"
    and k: "(k, c) \<in> set (connections s)"
    and w: "websocket c = Some ws"
    and r: "readyState ws \<noteq> OPEN"
  shows "(k, c) \<in> set (connections (broadcastEvent ev s)) \<and>
         frames_to k (wire (broadcastEvent ev s)) = frames_to k (wire s) \<and>
         (\<forall>(k', c') \<in> set (connections s).
            (k', c') \<notin> set (connections (broadcastEvent ev s)) \<longrightarrow>
            (\<exists>ws'. websocket c' = Some ws' \<and> readyState ws' = OPEN \<and> send_throws ws'))"
proof -
  from w r have nt: "\<not> write_throws c" and nd: "\<not> write_delivers c"
    by (simp_all add: write_throws_def write_delivers_def)
  from k nt have a: "(k, c) \<in> set (connections (broadcastEvent ev s))"
    by (simp add: broadcastEvent_connections [OF d])
  have "\<not> (\<exists>c'. (k, c') \<in> set (connections s) \<and> write_delivers c')"
  proof
    assume "\<exists>c'. (k, c') \<in> set (connections s) \<and> write_delivers c'"
    then obtain c' where "(k, c') \<in> set (connections s)" and x: "write_delivers c'" by auto
    with d k have "c' = c" by (metis same_key_same_connection)
    with x nd show False by simp
  qed
  then have b: "frames_to k (wire (broadcastEvent ev s)) = frames_to k (wire s)"
    by (simp add: broadcastEvent_frames_to [OF d])
  have "\<exists>ws'. websocket c' = Some ws' \<and> readyState ws' = OPEN \<and> send_throws ws'"
    if "(k', c') \<in> set (connections s)"
      and "(k', c') \<notin> set (connections (broadcastEvent ev s))" for k' c'
  proof -
    from that have "write_throws c'" by (simp add: broadcastEvent_connections [OF d])
    then show ?thesis by (auto simp: write_throws_def split: option.splits)
  qed
  with a b show ?thesis by auto
qed

theorem closed_socket_stays_registered_witness:
  "readyState closing_ws \<noteq> OPEN \<and>
   connections (broadcastEvent event0
     (server0\<lparr>connections := [client ''k'' broken_ws, client ''b'' closing_ws]\<rparr>)) =
     [client ''b'' closing_ws] \<and>
   frames_to ''b'' (wire (broadcastEvent event0
     (server0\<lparr>connections := [client ''k'' broken_ws, client ''b'' closing_ws]\<rparr>))) = []"
  using closed_socket_stays_registered
          [of "server0\<lparr>connections := [client ''k'' broken_ws, client ''b'' closing_ws]\<rparr>"
              "''b''" "snd (client ''b'' closing_ws)" closing_ws event0]
  by (simp add: client_def broken_ws_def closing_ws_def write_throws_def
        broadcastEvent_connections frames_to_def
        server0_def new_StreamingServer_def setupHeartbeat_def)

subsection \<open>Reconfiguration\<close>

text \<open>
  C9. \<open>updateConfig\<close> replaces the configuration by the old one with the given fields
  overridden, field by field, and changes nothing else of the server: the port the
  listener is bound to, the registry, the heartbeat timer, the handler, what was written
  and emitted all stay, and no port is bound.
\<close>

theorem updateConfig_only_merges:
  "enabled (config (updateConfig newConfig s)) =
     (case o_enabled newConfig of None \<Rightarrow> enabled (config s) | Some v \<Rightarrow> v) \<and>
   port (config (updateConfig newConfig s)) =
     (case o_port newConfig of None \<Rightarrow> port (config s) | Some v \<Rightarrow> v) \<and>
   portRange (config (updateConfig newConfig s)) =
     (case o_portRange newConfig of None \<Rightarrow> portRange (config s) | Some v \<Rightarrow> v) \<and>
   logging (config (updateConfig newConfig s)) =
     (case o_logging newConfig of None \<Rightarrow> logging (config s) | Some v \<Rightarrow> v) \<and>
   loggingLevel (config (updateConfig newConfig s)) =
     (case o_loggingLevel newConfig of None \<Rightarrow> loggingLevel (config s) | Some v \<Rightarrow> v) \<and>
   connectionTimeout (config (updateConfig newConfig s)) =
     (case o_connectionTimeout newConfig of
        None \<Rightarrow> connectionTimeout (config s) | Some v \<Rightarrow> v) \<and>
   heartbeatInterval (config (updateConfig newConfig s)) =
     (case o_heartbeatInterval newConfig of
        None \<Rightarrow> heartbeatInterval (config s) | Some v \<Rightarrow> v) \<and>
   listening (updateConfig newConfig s) = listening s \<and>
   listen_log (updateConfig newConfig s) = listen_log s \<and>
   connections (updateConfig newConfig s) = connections s \<and>
   heartbeatTimer (updateConfig newConfig s) = heartbeatTimer s \<and>
   taskCommandHandler (updateConfig newConfig s) = taskCommandHandler s \<and>
   wire (updateConfig newConfig s) = wire s \<and>
   emitted (updateConfig newConfig s) = emitted s \<and>
   clock (updateConfig newConfig s) = clock s"
  by (simp add: updateConfig_def spread_def split: option.splits)

theorem updateConfig_only_merges_witness:
  "port (config (updateConfig (no_override\<lparr>o_port := Some 4000, o_heartbeatInterval := Some 5\<rparr>)
                  (server0\<lparr>listening := Some 3001\<rparr>))) = 4000 \<and>
   heartbeatInterval (config (updateConfig
       (no_override\<lparr>o_port := Some 4000, o_heartbeatInterval := Some 5\<rparr>)
       (server0\<lparr>listening := Some 3001\<rparr>))) = 5 \<and>
   loggingLevel (config (updateConfig
       (no_override\<lparr>o_port := Some 4000, o_heartbeatInterval := Some 5\<rparr>)
       (server0\<lparr>listening := Some 3001\<rparr>))) = ''info'' \<and>
   listening (updateConfig (no_override\<lparr>o_port := Some 4000, o_heartbeatInterval := Some 5\<rparr>)
                (server0\<lparr>listening := Some 3001\<rparr>)) = Some 3001 \<and>
   heartbeatTimer (updateConfig
       (no_override\<lparr>o_port := Some 4000, o_heartbeatInterval := Some 5\<rparr>)
       (server0\<lparr>listening := Some 3001\<rparr>)) = Some \<lparr>period = 30000, active = True\<rparr>"
  using updateConfig_only_merges
          [of "no_override\<lparr>o_port := Some 4000, o_heartbeatInterval := Some 5\<rparr>"
              "server0\<lparr>listening := Some 3001\<rparr>"]
  by (simp add: no_override_def server0_def new_StreamingServer_def setupHeartbeat_def
        spread_def DEFAULT_CONFIG_def)

subsection \<open>Port acquisition\<close>

lemma tryPort_Listening:
  "listen q = Listening \<Longrightarrow> tryPort wl listen pr q = ([q], Bound q)"
  by (simp add: tryPort.simps)

text \<open>
  What \<open>onError\<close> would do if the error reached it, that is, if the WebSocket server had
  a listener for \<open>error\<close>: while the ports from \<open>p\<close> up to \<open>q\<close> are taken and below the
  maximum, the scan walks on to \<open>q\<close>; a taken port at the maximum ends it with the
  port-exhaustion error, another bind error ends it at once.
\<close>

lemma tryPort_BindFailure:
  "0 < wl \<Longrightarrow> listen q = BindFailure e \<Longrightarrow>
   tryPort wl listen pr q = ([q], Failed (BindError e))"
  by (simp add: tryPort.simps emit_error_def)

lemma tryPort_exhausted:
  "0 < wl \<Longrightarrow> listen q = AddrInUse \<Longrightarrow> \<not> q < pmax r \<Longrightarrow>
   tryPort wl listen (Some r) q = ([q], Failed (NoAvailablePorts q))"
  by (simp add: tryPort.simps emit_error_def)

lemma tryPort_next:
  "0 < wl \<Longrightarrow> listen p = AddrInUse \<Longrightarrow> p < pmax r \<Longrightarrow>
   tryPort wl listen (Some r) p =
     (p # fst (tryPort wl listen (Some r) (Suc p)), snd (tryPort wl listen (Some r) (Suc p)))"
  by (subst tryPort.simps) (simp add: case_prod_beta emit_error_def)

lemma tryPort_scan:
  assumes "0 < wl" and "p \<le> q" and "q \<le> pmax r"
    and "\<forall>k. p \<le> k \<and> k < q \<longrightarrow> listen k = AddrInUse"
  shows "tryPort wl listen (Some r) p =
           ([p..<q] @ fst (tryPort wl listen (Some r) q), snd (tryPort wl listen (Some r) q))"
  using assms
proof (induction "q - p" arbitrary: p)
  case 0
  then have "p = q" by simp
  then show ?case by simp
next
  case (Suc d)
  then have lt: "p < q" and "d = q - Suc p" by simp_all
  with Suc.prems have ih: "tryPort wl listen (Some r) (Suc p) =
      ([Suc p..<q] @ fst (tryPort wl listen (Some r) q), snd (tryPort wl listen (Some r) q))"
    by (intro Suc.hyps(1)) auto
  from lt Suc.prems have "listen p = AddrInUse" and "p < pmax r" by auto
  then show ?case
    using lt Suc.prems(1) by (simp add: tryPort_next ih upt_conv_Cons)
qed

text \<open>
  What \<open>start\<close> does on a server as the constructor builds it: a free preferred port is
  bound; a preferred port that cannot be bound, for whatever reason, ends \<open>start\<close> with an
  exception nobody catches, after this one call of \<open>listen\<close>, with the promise pending.
\<close>

lemma start_preferred_free:
  "listen (port (config s)) = Listening \<Longrightarrow>
   start listen s =
     (Fulfilled, s\<lparr>listen_log := listen_log s @ [port (config s)],
                   listening := Some (port (config s)),
                   emitted := emitted s @ [Started]\<rparr>)"
  by (simp add: start_def tryPort_Listening)

lemma start_preferred_taken:
  "listen (port (config s)) = AddrInUse \<Longrightarrow>
   start listen s =
     (Pending (Error ''EADDRINUSE''), s\<lparr>listen_log := listen_log s @ [port (config s)]\<rparr>)"
  by (simp add: start_def tryPort.simps emit_error_def wss_error_listeners_def)

lemma start_preferred_refused:
  "listen (port (config s)) = BindFailure e \<Longrightarrow>
   start listen s = (Pending (Error e), s\<lparr>listen_log := listen_log s @ [port (config s)]\<rparr>)"
  by (simp add: start_def tryPort.simps emit_error_def wss_error_listeners_def)

text \<open>
  C3. With the preferred port taken and a range configured around it, \<open>start\<close> should
  go on to the next port, bind the first free one, fail with the port-exhaustion error
  when the whole range is taken, and fail at once on any other bind error. On the
  default configuration (port 3001, range 3001 to 3100) the code does none of this. With
  3001 and 3002 taken and 3003 free, with every port taken, and with every bind refused,
  \<open>start\<close> calls \<open>listen\<close> once, on 3001, binds nothing, and its promise neither resolves
  nor rejects: the error event is thrown by the WebSocket server's listener before
  \<open>onError\<close> runs.
\<close>

theorem start_never_reaches_onError:
  "port (config server0) = 3001 \<and>
   portRange (config server0) = Some \<lparr>pmin = 3001, pmax = 3100\<rparr> \<and>
   listen0 3001 = AddrInUse \<and> listen0 3002 = AddrInUse \<and> listen0 3003 = Listening \<and>
   start listen0 server0 =
     (Pending (Error ''EADDRINUSE''), server0\<lparr>listen_log := [3001]\<rparr>) \<and>
   start (\<lambda>p. AddrInUse) server0 =
     (Pending (Error ''EADDRINUSE''), server0\<lparr>listen_log := [3001]\<rparr>) \<and>
   start listen2 server0 = (Pending (Error ''EACCES''), server0\<lparr>listen_log := [3001]\<rparr>) \<and>
   listening (snd (start listen0 server0)) = None"
  by (simp add: start_preferred_taken start_preferred_refused listen0_def listen2_def
        server0_def new_StreamingServer_def setupHeartbeat_def spread_def
        DEFAULT_CONFIG_def no_override_def)

subsection \<open>Task commands\<close>

lemma send_json_delivers:
  assumes "map_of (connections s) connectionId = Some c" and "websocket c = Some ws"
    and "readyState ws = OPEN" and "\<not> send_throws ws"
  shows "send_json orc connectionId mk s =
           (None, s\<lparr>clock := Suc (clock s),
                    wire := wire s @ [(connectionId, mk (Date_now orc (clock s)))]\<rparr>)"
  using assms by (simp add: send_json_def sendToWebSocketClient_def Let_def)

text \<open>
  C5, as amended. Let the originating connection be registered with an open socket whose
  write does not raise when the handler has settled. Then the handling of a task command
  raises nothing and writes exactly one frame, to that connection: the acknowledgement
  naming the command when the handler succeeds, an error frame when no handler is
  registered or the handler fails. Nothing is written to any other connection.
\<close>

theorem task_command_round_trip:
  assumes "map_of (connections s) connectionId = Some c" and "websocket c = Some ws"
    and "readyState ws = OPEN" and "\<not> send_throws ws"
  shows "(taskCommandHandler s = Some handler \<and>
          handler (commandName message) (cmd_data message) = Resolved \<longrightarrow>
            handleTaskCommand orc connectionId message s =
              (None, s\<lparr>clock := Suc (clock s),
                       wire := wire s @
                         [(connectionId,
                           AckFrame (commandName message) (Date_now orc (clock s)))]\<rparr>)) \<and>
         (taskCommandHandler s = None \<longrightarrow>
            handleTaskCommand orc connectionId message s =
              (None, s\<lparr>clock := Suc (clock s),
                       wire := wire s @
                         [(connectionId,
                           ErrorFrame ''Task command handler not available''
                             (Date_now orc (clock s)))]\<rparr>)) \<and>
         (taskCommandHandler s = Some handler \<and>
          handler (commandName message) (cmd_data message) = Rejected r \<longrightarrow>
            handleTaskCommand orc connectionId message s =
              (None, s\<lparr>clock := Suc (clock s),
                       wire := wire s @
                         [(connectionId,
                           ErrorFrame (''Failed to process command: '' @
                                         (case r of Some msg \<Rightarrow> msg
                                          | None \<Rightarrow> ''Unknown error''))
                             (Date_now orc (clock s)))]\<rparr>))"
  by (simp add: handleTaskCommand_def sendAckToClient_def sendErrorToClient_def
        send_json_delivers [OF assms])

theorem task_command_round_trip_witness:
  "handleTaskCommand env0 ''a'' command0
     (setTaskCommandHandler (\<lambda>name d. Resolved)
        (server0\<lparr>connections := [client ''a'' open_ws, client ''b'' open_ws]\<rparr>)) =
     (None, setTaskCommandHandler (\<lambda>name d. Resolved)
        (server0\<lparr>connections := [client ''a'' open_ws, client ''b'' open_ws],
                  clock := 1, wire := [(''a'', AckFrame (JStr ''CancelTask'') 0)]\<rparr>)) \<and>
   wire (snd (handleTaskCommand env0 ''a'' command0
     (server0\<lparr>connections := [client ''a'' open_ws, client ''b'' open_ws]\<rparr>))) =
     [(''a'', ErrorFrame ''Task command handler not available'' 0)] \<and>
   wire (snd (handleTaskCommand env0 ''a'' command0
     (setTaskCommandHandler (\<lambda>name d. Rejected (Some ''no such task''))
        (server0\<lparr>connections := [client ''a'' open_ws, client ''b'' open_ws]\<rparr>)))) =
     [(''a'', ErrorFrame ''Failed to process command: no such task'' 0)]"
  using task_command_round_trip
          [of "setTaskCommandHandler (\<lambda>name d. Resolved)
                 (server0\<lparr>connections := [client ''a'' open_ws, client ''b'' open_ws]\<rparr>)"
              "''a''" "snd (client ''a'' open_ws)" open_ws "\<lambda>name d. Resolved" command0 env0]
        task_command_round_trip
          [of "server0\<lparr>connections := [client ''a'' open_ws, client ''b'' open_ws]\<rparr>"
              "''a''" "snd (client ''a'' open_ws)" open_ws _ command0 env0]
        task_command_round_trip
          [of "setTaskCommandHandler (\<lambda>name d. Rejected (Some ''no such task''))
                 (server0\<lparr>connections := [client ''a'' open_ws, client ''b'' open_ws]\<rparr>)"
              "''a''" "snd (client ''a'' open_ws)" open_ws
              "\<lambda>name d. Rejected (Some ''no such task'')" command0 env0 "Some ''no such task''"]
  by (simp add: setTaskCommandHandler_def client_def open_ws_def command0_def env0_def
        server0_def new_StreamingServer_def setupHeartbeat_def)

text \<open>
  The claim as written fails: when the socket of the originating connection is no longer
  open, a command whose handler succeeds is answered by no frame at all.
\<close>

theorem task_command_without_ack_counterexample:
  "taskCommandHandler (setTaskCommandHandler (\<lambda>name d. Resolved)
      (server0\<lparr>connections := [client ''a'' closing_ws]\<rparr>)) \<noteq> None \<and>
   handleTaskCommand env0 ''a'' command0
     (setTaskCommandHandler (\<lambda>name d. Resolved)
        (server0\<lparr>connections := [client ''a'' closing_ws]\<rparr>)) =
     (None, setTaskCommandHandler (\<lambda>name d. Resolved)
        (server0\<lparr>connections := [client ''a'' closing_ws], clock := 1\<rparr>)) \<and>
   wire (snd (handleTaskCommand env0 ''a'' command0
     (setTaskCommandHandler (\<lambda>name d. Resolved)
        (server0\<lparr>connections := [client ''a'' closing_ws]\<rparr>)))) = []"
  by (simp add: handleTaskCommand_def sendAckToClient_def send_json_def
        sendToWebSocketClient_def setTaskCommandHandler_def client_def closing_ws_def
        command0_def server0_def new_StreamingServer_def setupHeartbeat_def)

text \<open>
  What the amended claim leaves out: when the write to the originating connection raises,
  the exception leaves \<open>handleTaskCommand\<close> and rejects its promise.
\<close>

lemma failing_write_rejects_handleTaskCommand:
  "fst (handleTaskCommand env0 ''k'' command0
          (server0\<lparr>connections := [client ''k'' broken_ws]\<rparr>)) = Some (Error ''send failed'')"
  by (simp add: handleTaskCommand_def sendErrorToClient_def send_json_def
        sendToWebSocketClient_def client_def broken_ws_def
        server0_def new_StreamingServer_def setupHeartbeat_def)

subsection \<open>The heartbeat\<close>

lemma start_heartbeat:
  "heartbeatTimer (snd (start listen s)) = heartbeatTimer s \<and>
   filter is_heartbeat (emitted (snd (start listen s))) = filter is_heartbeat (emitted s)"
  by (cases "snd (tryPort wss_error_listeners listen (portRange (config s))
                 (port (config s)))")
     (simp_all add: start_def case_prod_beta Let_def)

lemma heartbeat_callback_effect:
  "heartbeatTimer (heartbeat_callback orc s) = heartbeatTimer s \<and>
   heartbeats (heartbeat_callback orc s) = Suc (heartbeats s)"
  by (simp add: heartbeat_callback_def heartbeats_def generateEventId_def
        broadcastEvent_frame)

lemma step_heartbeatTimer:
  "heartbeatTimer (step orc x s) =
     (if is_stop x
      then (case heartbeatTimer s of None \<Rightarrow> None | Some t \<Rightarrow> Some (t\<lparr>active := False\<rparr>))
      else heartbeatTimer s)"
  by (cases x)
     (simp_all add: start_heartbeat stop_def interval_elapsed_def heartbeat_callback_effect
        updateConfig_def broadcastEvent_frame on_connection_def on_close_def
        case_prod_beta split: option.splits)

lemma step_heartbeats:
  "\<not> foreign_heartbeat x \<Longrightarrow>
   heartbeats (step orc x s) =
     heartbeats s + (if is_tick x \<and> timer_active s then 1 else 0)"
  by (cases x)
     (simp_all add: heartbeats_def start_heartbeat stop_def interval_elapsed_def
        heartbeat_callback_effect [unfolded heartbeats_def] timer_active_def
        updateConfig_def broadcastEvent_frame on_connection_def on_close_def
        case_prod_beta split: option.splits)

lemma run_stopped:
  "\<not> timer_active s \<Longrightarrow> \<forall>x \<in> set ops. \<not> foreign_heartbeat x \<Longrightarrow>
   heartbeats (run orc ops s) = heartbeats s \<and> \<not> timer_active (run orc ops s)"
proof (induction ops arbitrary: s)
  case Nil
  then show ?case by simp
next
  case (Cons x ops)
  from Cons.prems(1) have "\<not> timer_active (step orc x s)"
    by (auto simp: timer_active_def step_heartbeatTimer split: option.splits)
  moreover from Cons.prems have "heartbeats (step orc x s) = heartbeats s"
    by (simp add: step_heartbeats)
  ultimately show ?case using Cons.IH [of "step orc x s"] Cons.prems(2) by simp
qed

lemma run_active:
  "timer_active s \<Longrightarrow> \<forall>x \<in> set ops. \<not> foreign_heartbeat x \<Longrightarrow>
   heartbeats (run orc ops s) =
     heartbeats s + length (filter is_tick (takeWhile (\<lambda>x. \<not> is_stop x) ops)) \<and>
   timer_active (run orc ops s) = (\<forall>x \<in> set ops. \<not> is_stop x)"
proof (induction ops arbitrary: s)
  case Nil
  then show ?case by simp
next
  case (Cons x ops)
  show ?case
  proof (cases "is_stop x")
    case True
    with Cons.prems(1) have "\<not> timer_active (step orc x s)"
      by (auto simp: timer_active_def step_heartbeatTimer split: option.splits)
    moreover from True have "\<not> is_tick x" by (cases x) simp_all
    with Cons.prems have "heartbeats (step orc x s) = heartbeats s"
      by (simp add: step_heartbeats)
    ultimately show ?thesis
      using run_stopped [of "step orc x s" ops orc] Cons.prems(2) True by simp
  next
    case False
    with Cons.prems(1) have "timer_active (step orc x s)"
      by (simp add: timer_active_def step_heartbeatTimer)
    moreover from Cons.prems have "heartbeats (step orc x s) =
        heartbeats s + (if is_tick x then 1 else 0)"
      by (simp add: step_heartbeats)
    ultimately show ?thesis
      using Cons.IH [of "step orc x s"] Cons.prems(2) False by simp
  qed
qed

text \<open>
  C8, as amended. The heartbeat timer is started by the constructor and is cancelled by
  \<open>stop\<close>; \<open>start\<close> does not touch it. In every run of a server after its construction
  (in which the host itself broadcasts no event of type \<open>heartbeat\<close>), the number of
  heartbeat events broadcast is the number of times the interval elapsed before the first
  \<open>stop\<close>, whether or not \<open>start\<close> was called or succeeded, and the timer is active exactly
  as long as \<open>stop\<close> has not been called.
\<close>

theorem heartbeat_from_construction_until_stop:
  assumes "\<forall>x \<in> set ops. \<not> foreign_heartbeat x"
  shows "heartbeats (run orc ops (new_StreamingServer over)) =
           length (filter is_tick (takeWhile (\<lambda>x. \<not> is_stop x) ops)) \<and>
         timer_active (run orc ops (new_StreamingServer over)) =
           (\<forall>x \<in> set ops. \<not> is_stop x)"
proof -
  have "timer_active (new_StreamingServer over)"
    and "heartbeats (new_StreamingServer over) = 0"
    by (simp_all add: timer_active_def heartbeats_def new_StreamingServer_def
          setupHeartbeat_def)
  with run_active [of "new_StreamingServer over" ops orc] assms show ?thesis by simp
qed

theorem heartbeat_from_construction_until_stop_witness:
  "heartbeats (run env0
     [OpIntervalElapsed, OpStart listen1, OpIntervalElapsed, OpBroadcast event0, OpStop,
      OpIntervalElapsed, OpStart listen0, OpIntervalElapsed] server0) = 2 \<and>
   \<not> timer_active (run env0
     [OpIntervalElapsed, OpStart listen1, OpIntervalElapsed, OpBroadcast event0, OpStop,
      OpIntervalElapsed, OpStart listen0, OpIntervalElapsed] server0)"
  using heartbeat_from_construction_until_stop
          [of "[OpIntervalElapsed, OpStart listen1, OpIntervalElapsed, OpBroadcast event0,
                OpStop, OpIntervalElapsed, OpStart listen0, OpIntervalElapsed]"
              env0 no_override]
  by (simp add: server0_def event0_def)

text \<open>
  The claim as written fails: on a server that was constructed and never started, the
  first elapsing of the interval broadcasts a heartbeat event while no listener is bound.
\<close>

theorem heartbeat_before_start_counterexample:
  "listening (run env0 [OpIntervalElapsed] server0) = None \<and>
   listen_log (run env0 [OpIntervalElapsed] server0) = [] \<and>
   emitted (run env0 [OpIntervalElapsed] server0) =
     [EventBroadcast
        \<lparr>event_id = ''event_0_x'', timestamp = 2, task_id = None, content = None,
         etype = Some ''heartbeat'', data = Some (JObj [(''timestamp'', JNum 3)])\<rparr>]"
  by (simp add: interval_elapsed_def heartbeat_callback_def broadcastEvent_def
        generateEventId_def env0_def toString_def nat_toString.simps
        server0_def new_StreamingServer_def setupHeartbeat_def)

end
